theory Spec2Isabelle
  imports Main "HOL-Library.Word" "HOL-Library.Monad_Syntax"
begin

unbundle bit_operations_syntax

section \<open>LibFS: an inode file system on a sector device\<close>

text \<open>
  A shallow embedding of \<^verbatim>\<open>LibFS.c\<close>. The headers \<^verbatim>\<open>LibDisk.h\<close> and \<^verbatim>\<open>LibFS.h\<close> are
  not part of the sources, so the compile-time constants they define are a parameter of
  every definition (a \<open>config\<close>), and the error codes are a datatype of their names.

  Conventions of the embedding:
  \<^item> C \<^verbatim>\<open>int\<close> values are \<open>int\<close>; the additions on the caller-supplied length that can
    overflow are checked (\<open>add32\<close>), and so are the divisions by a run-time value
    (\<open>c_div\<close>, \<open>c_mod\<close>, \<open>udiv\<close>).
  \<^item> Every function returns an \<open>option\<close>. \<open>None\<close> stands for a run on which the C program
    has no defined result: an array read or write out of bounds, a failed \<^verbatim>\<open>assert\<close>,
    a \<^verbatim>\<open>memcpy\<close> outside its buffer or between overlapping ranges, the read of an
    uninitialised variable, signed overflow, division by zero, a loop that does not end,
    or the reinterpretation of a sector's bytes as records of another type.
  \<^item> A sector buffer is typed: the all-zero sector (what \<^verbatim>\<open>Disk_Init\<close> and
    \<^verbatim>\<open>memset(buffer, 0, SECTOR_SIZE)\<close> leave), raw bytes, the superblock, an array of inodes
    or an array of directory entries. An all-zero sector reads as zero records.
  \<^item> The global \<^verbatim>\<open>osErrno\<close> and the open-file table are fields of the state.
\<close>

subsection \<open>Constants\<close>

record config =
  SECTOR_SIZE :: int
  TOTAL_SECTORS :: int
  MAX_FILES :: int
  MAX_SECTORS_PER_FILE :: int

text \<open>The values customary for this library: 512-byte sectors, 10000 sectors,
  1000 files, 30 sectors per file.\<close>

definition std_config :: config where
  "std_config = \<lparr> SECTOR_SIZE = 512, TOTAL_SECTORS = 10000, MAX_FILES = 1000,
     MAX_SECTORS_PER_FILE = 30 \<rparr>"

text \<open>Modelled from the spec: \<^verbatim>\<open>MAX_FILE_SIZE\<close> is defined in the missing \<^verbatim>\<open>LibFS.h\<close>;
  the spec gives it as sector-array capacity times sector size.\<close>

definition MAX_FILE_SIZE :: "config \<Rightarrow> int" where
  "MAX_FILE_SIZE c = SECTOR_SIZE c * MAX_SECTORS_PER_FILE c"

definition SUPERBLOCK_START_SECTOR :: int where
  "SUPERBLOCK_START_SECTOR = 0"

definition OS_MAGIC :: int where
  "OS_MAGIC = 0xdeadbeef"

definition INODE_BITMAP_START_SECTOR :: int where
  "INODE_BITMAP_START_SECTOR = 1"

definition INODE_BITMAP_SIZE :: "config \<Rightarrow> int" where
  "INODE_BITMAP_SIZE c = (MAX_FILES c + 7) div 8"

definition INODE_BITMAP_SECTORS :: "config \<Rightarrow> int" where
  "INODE_BITMAP_SECTORS c = (INODE_BITMAP_SIZE c + SECTOR_SIZE c - 1) div SECTOR_SIZE c"

definition SECTOR_BITMAP_START_SECTOR :: "config \<Rightarrow> int" where
  "SECTOR_BITMAP_START_SECTOR c = INODE_BITMAP_START_SECTOR + INODE_BITMAP_SECTORS c"

definition SECTOR_BITMAP_SIZE :: "config \<Rightarrow> int" where
  "SECTOR_BITMAP_SIZE c = (TOTAL_SECTORS c + 7) div 8"

definition SECTOR_BITMAP_SECTORS :: "config \<Rightarrow> int" where
  "SECTOR_BITMAP_SECTORS c = (SECTOR_BITMAP_SIZE c + SECTOR_SIZE c - 1) div SECTOR_SIZE c"

definition INODE_TABLE_START_SECTOR :: "config \<Rightarrow> int" where
  "INODE_TABLE_START_SECTOR c = SECTOR_BITMAP_START_SECTOR c + SECTOR_BITMAP_SECTORS c"

text \<open>\<^verbatim>\<open>sizeof(inode_t)\<close> and \<^verbatim>\<open>sizeof(dirent_t)\<close> for a 4-byte \<^verbatim>\<open>int\<close>: two ints and the
  sector array; sixteen name bytes and an int.\<close>

definition sizeof_inode_t :: "config \<Rightarrow> int" where
  "sizeof_inode_t c = 4 + 4 + 4 * MAX_SECTORS_PER_FILE c"

definition INODES_PER_SECTOR :: "config \<Rightarrow> int" where
  "INODES_PER_SECTOR c = SECTOR_SIZE c div sizeof_inode_t c"

definition INODE_TABLE_SECTORS :: "config \<Rightarrow> int" where
  "INODE_TABLE_SECTORS c = (MAX_FILES c + INODES_PER_SECTOR c - 1) div INODES_PER_SECTOR c"

definition DATABLOCK_START_SECTOR :: "config \<Rightarrow> int" where
  "DATABLOCK_START_SECTOR c = INODE_TABLE_START_SECTOR c + INODE_TABLE_SECTORS c"

definition MAX_PATH :: int where
  "MAX_PATH = 256"

definition MAX_NAME :: int where
  "MAX_NAME = 16"

definition MAX_OPEN_FILES :: int where
  "MAX_OPEN_FILES = 256"

definition sizeof_dirent_t :: int where
  "sizeof_dirent_t = MAX_NAME + 4"

definition DIRENTS_PER_SECTOR :: "config \<Rightarrow> int" where
  "DIRENTS_PER_SECTOR c = SECTOR_SIZE c div sizeof_dirent_t"

text \<open>C's \<^verbatim>\<open>/\<close> and \<^verbatim>\<open>%\<close> on \<^verbatim>\<open>int\<close> truncate towards zero.\<close>

definition cdiv :: "int \<Rightarrow> int \<Rightarrow> int" where
  "cdiv a b = sgn a * sgn b * (\<bar>a\<bar> div \<bar>b\<bar>)"

definition cmod :: "int \<Rightarrow> int \<Rightarrow> int" where
  "cmod a b = a - b * cdiv a b"

text \<open>Division by a run-time zero has no defined result.\<close>

definition c_div :: "int \<Rightarrow> int \<Rightarrow> int option" where
  "c_div a b = (if b = 0 then None else Some (cdiv a b))"

definition c_mod :: "int \<Rightarrow> int \<Rightarrow> int option" where
  "c_mod a b = (if b = 0 then None else Some (cmod a b))"

text \<open>\<^verbatim>\<open>INODES_PER_SECTOR\<close> and \<^verbatim>\<open>DIRENTS_PER_SECTOR\<close> have type \<^verbatim>\<open>size_t\<close>, so an \<^verbatim>\<open>int\<close> divided
  by them is converted to unsigned first. The model follows C for a dividend that is not
  negative, and gives no result otherwise.\<close>

definition udiv :: "int \<Rightarrow> int \<Rightarrow> int option" where
  "udiv a b = (if a < 0 \<or> b \<le> 0 then None else Some (a div b))"

definition INT_MAX :: int where
  "INT_MAX = 2147483647"

definition add32 :: "int \<Rightarrow> int \<Rightarrow> int option" where
  "add32 a b = (if - INT_MAX - 1 \<le> a + b \<and> a + b \<le> INT_MAX then Some (a + b) else None)"

subsection \<open>Data\<close>

type_synonym byte = "8 word"

record inode_t =
  i_size :: int
  i_type :: int
  i_data :: "int list"

record dirent_t =
  d_fname :: string
  d_inode :: int

record open_file_t =
  of_inode :: int
  of_size :: int
  of_pos :: int

datatype FS_Error_t =
  E_GENERAL | E_CREATE | E_NO_SUCH_FILE | E_TOO_MANY_OPEN_FILES | E_BAD_FD | E_NO_SPACE
  | E_FILE_TOO_BIG | E_SEEK_OUT_OF_BOUNDS | E_FILE_IN_USE | E_NO_SUCH_DIR | E_DIR_NOT_EMPTY
  | E_BUFFER_TOO_SMALL

datatype sector =
  Zero
  | Raw "byte list"
  | Super int
  | Inodes "inode_t list"
  | Dirents "dirent_t list"

record fs_state =
  disk :: "int \<Rightarrow> sector"
  open_files :: "open_file_t list"
  osErrno :: "FS_Error_t option"

definition zero_inode :: "config \<Rightarrow> inode_t" where
  "zero_inode c = \<lparr> i_size = 0, i_type = 0,
     i_data = replicate (nat (MAX_SECTORS_PER_FILE c)) 0 \<rparr>"

definition zero_dirent :: dirent_t where
  "zero_dirent = \<lparr> d_fname = [], d_inode = 0 \<rparr>"

definition nth_opt :: "'a list \<Rightarrow> int \<Rightarrow> 'a option" where
  "nth_opt xs i = (if 0 \<le> i \<and> nat i < length xs then Some (xs ! nat i) else None)"

definition upd_opt :: "'a list \<Rightarrow> int \<Rightarrow> 'a \<Rightarrow> 'a list option" where
  "upd_opt xs i v = (if 0 \<le> i \<and> nat i < length xs then Some (xs[nat i := v]) else None)"

definition all_zero :: "byte list \<Rightarrow> bool" where
  "all_zero bs = list_all (\<lambda>b. b = 0) bs"

text \<open>The views of a sector buffer: as bytes, as \<^verbatim>\<open>inode_t[]\<close>, as \<^verbatim>\<open>dirent_t[]\<close>.\<close>

fun as_bytes :: "config \<Rightarrow> sector \<Rightarrow> byte list option" where
  "as_bytes c Zero = Some (replicate (nat (SECTOR_SIZE c)) 0)"
| "as_bytes c (Raw bs) = Some bs"
| "as_bytes c _ = None"

fun as_inodes :: "config \<Rightarrow> sector \<Rightarrow> inode_t list option" where
  "as_inodes c Zero = Some (replicate (nat (INODES_PER_SECTOR c)) (zero_inode c))"
| "as_inodes c (Inodes xs) = Some xs"
| "as_inodes c (Raw bs) =
     (if all_zero bs then Some (replicate (nat (INODES_PER_SECTOR c)) (zero_inode c)) else None)"
| "as_inodes c _ = None"

fun as_dirents :: "config \<Rightarrow> sector \<Rightarrow> dirent_t list option" where
  "as_dirents c Zero = Some (replicate (nat (DIRENTS_PER_SECTOR c)) zero_dirent)"
| "as_dirents c (Dirents xs) = Some xs"
| "as_dirents c (Raw bs) =
     (if all_zero bs then Some (replicate (nat (DIRENTS_PER_SECTOR c)) zero_dirent) else None)"
| "as_dirents c _ = None"

subsection \<open>The block device\<close>

text \<open>Modelled from the spec: \<^verbatim>\<open>Disk_Read\<close> and \<^verbatim>\<open>Disk_Write\<close> belong to the missing
  \<^verbatim>\<open>LibDisk\<close>; each transfers exactly one sector by index and fails on an index
  outside the device.\<close>

definition Disk_Read :: "config \<Rightarrow> fs_state \<Rightarrow> int \<Rightarrow> sector option" where
  "Disk_Read c st s = (if 0 \<le> s \<and> s < TOTAL_SECTORS c then Some (disk st s) else None)"

definition Disk_Write :: "config \<Rightarrow> fs_state \<Rightarrow> int \<Rightarrow> sector \<Rightarrow> fs_state option" where
  "Disk_Write c st s buf =
     (if 0 \<le> s \<and> s < TOTAL_SECTORS c then Some (st\<lparr> disk := (disk st)(s := buf) \<rparr>) else None)"

definition set_errno :: "FS_Error_t \<Rightarrow> fs_state \<Rightarrow> fs_state" where
  "set_errno e st = st\<lparr> osErrno := Some e \<rparr>"

subsection \<open>Bitmaps\<close>

definition mask_set :: "byte list" where
  "mask_set = [128, 64, 32, 16, 8, 4, 2, 1]"

definition set_NthBit :: "byte \<Rightarrow> nat \<Rightarrow> byte" where
  "set_NthBit ch n = ch OR (mask_set ! n)"

definition isNthSet :: "byte \<Rightarrow> nat \<Rightarrow> bool" where
  "isNthSet ch n = (if ch AND (mask_set ! n) = 0 then False else True)"

text \<open>\<^verbatim>\<open>memset(buffer, v, n)\<close> on a sector buffer.\<close>

definition memset :: "byte list \<Rightarrow> byte \<Rightarrow> int \<Rightarrow> byte list option" where
  "memset buf v n =
     (if 0 \<le> n \<and> nat n \<le> length buf then Some (replicate (nat n) v @ drop (nat n) buf)
      else None)"

text \<open>The body of \<^verbatim>\<open>bitmap_init\<close>'s loop over the sectors \<open>i = start, ..., start + num - 1\<close>.
  \<open>nBytes\<close> and \<open>last_block\<close> are carried from one sector to the next.\<close>

function bitmap_init_loop ::
  "config \<Rightarrow> int \<Rightarrow> int \<Rightarrow> int \<Rightarrow> int \<Rightarrow> int \<Rightarrow> fs_state \<Rightarrow> fs_state option" where
  "bitmap_init_loop c i stop nBytes remain_bits last_block st =
     (if i < stop then
        (let last_block1 = (if nBytes < SECTOR_SIZE c then 1 else last_block) in
         case Disk_Read c st i of
           None \<Rightarrow> Some (set_errno E_GENERAL st)
         | Some _ \<Rightarrow>
             do {
               let zeros = replicate (nat (SECTOR_SIZE c)) (0 :: byte);
               (buffer, nBytes1) \<leftarrow>
                 (if 0 \<le> nBytes then
                    (if last_block1 = 0 then
                       do { b \<leftarrow> memset zeros 1 (SECTOR_SIZE c); Some (b, nBytes - SECTOR_SIZE c) }
                     else
                       do {
                         b \<leftarrow> memset zeros 255 nBytes;
                         (if 0 < remain_bits \<and> last_block1 = 1 then
                            do {
                              b1 \<leftarrow> upd_opt b nBytes (push_bit (nat (8 - remain_bits)) (255 :: byte));
                              Some (b1, - 1)
                            }
                          else Some (b, nBytes))
                       })
                  else Some (zeros, nBytes));
               (case Disk_Write c st i (Raw buffer) of
                  None \<Rightarrow> Some (set_errno E_GENERAL st)
                | Some st1 \<Rightarrow> bitmap_init_loop c (i + 1) stop nBytes1 remain_bits last_block1 st1)
             })
      else Some st)"
  by pat_completeness auto
termination
  by (relation "measure (\<lambda>(c, i, stop, nBytes, remain_bits, last_block, st). nat (stop - i))") auto

definition bitmap_init :: "config \<Rightarrow> fs_state \<Rightarrow> int \<Rightarrow> int \<Rightarrow> int \<Rightarrow> fs_state option" where
  "bitmap_init c st start num nbits =
     bitmap_init_loop c start (start + num) (cdiv nbits 8) (cmod nbits 8) 0 st"

text \<open>The two inner loops of \<^verbatim>\<open>bitmap_first_unused\<close>: over the bits of one byte (\<open>k\<close> bits
  from bit \<open>b\<close>), and over \<open>k\<close> bytes from index \<open>x\<close>. \<open>Inl\<close> is the early return with the
  flipped byte and the location; \<open>Inr\<close> is the location reached when no zero bit is found.\<close>

fun scan_bits :: "byte \<Rightarrow> nat \<Rightarrow> nat \<Rightarrow> int \<Rightarrow> (byte \<times> int) + int" where
  "scan_bits ch b 0 location = Inr location"
| "scan_bits ch b (Suc k) location =
     (if isNthSet ch b then scan_bits ch (b + 1) k (location + 1)
      else Inl (set_NthBit ch b, location + 1))"

fun scan_bytes :: "byte list \<Rightarrow> nat \<Rightarrow> nat \<Rightarrow> int \<Rightarrow> (nat \<times> byte \<times> int) + int" where
  "scan_bytes buf x 0 location = Inr location"
| "scan_bytes buf x (Suc k) location =
     (case scan_bits (buf ! x) 0 8 location of
        Inl (ch, l) \<Rightarrow> Inl (x, ch, l)
      | Inr l \<Rightarrow> scan_bytes buf (x + 1) k l)"

function bitmap_first_unused_loop ::
  "config \<Rightarrow> int \<Rightarrow> int \<Rightarrow> int \<Rightarrow> int \<Rightarrow> int \<Rightarrow> int \<Rightarrow> fs_state \<Rightarrow> (int \<times> fs_state) option"
  where
  "bitmap_first_unused_loop c i stop nBytes remain_bits last_block location st =
     (if i < stop then
        (let last_block1 = (if nBytes < SECTOR_SIZE c then 1 else last_block) in
         case Disk_Read c st i of
           None \<Rightarrow> Some (- 1, set_errno E_GENERAL st)
         | Some sec \<Rightarrow>
             do {
               buffer \<leftarrow> as_bytes c sec;
               let last = (if last_block1 = 1 then nBytes else SECTOR_SIZE c);
               (if int (length buffer) < last then None
                else
                  (case scan_bytes buffer 0 (nat last) location of
                     Inl (x, ch, l) \<Rightarrow>
                       (case Disk_Write c st i (Raw (buffer[x := ch])) of
                          None \<Rightarrow> Some (- 1, set_errno E_GENERAL st)
                        | Some st1 \<Rightarrow> Some (l, st1))
                   | Inr l \<Rightarrow>
                       (if last_block1 = 1 \<and> 0 < remain_bits then
                          do {
                            let x = nat last;
                            b \<leftarrow> nth_opt buffer (int x);
                            (case scan_bits b 0 (nat remain_bits) l of
                               Inl (ch, l1) \<Rightarrow>
                                 (case Disk_Write c st i (Raw (buffer[x := ch])) of
                                    None \<Rightarrow> Some (- 1, set_errno E_GENERAL st)
                                  | Some st1 \<Rightarrow> Some (l1, st1))
                             | Inr l1 \<Rightarrow>
                                 bitmap_first_unused_loop c (i + 1) stop nBytes remain_bits
                                   last_block1 l1 st)
                          }
                        else
                          bitmap_first_unused_loop c (i + 1) stop nBytes remain_bits
                            last_block1 l st)))
             })
      else Some (- 1, st))"
  by pat_completeness auto
termination
  by (relation "measure (\<lambda>(c, i, stop, nBytes, remain_bits, last_block, location, st).
        nat (stop - i))") auto

definition bitmap_first_unused ::
  "config \<Rightarrow> fs_state \<Rightarrow> int \<Rightarrow> int \<Rightarrow> int \<Rightarrow> (int \<times> fs_state) option" where
  "bitmap_first_unused c st start num nbits =
     bitmap_first_unused_loop c start (start + num) (cdiv nbits 8) (cmod nbits 8) 0 (- 1) st"

definition mask_reset :: "byte list" where
  "mask_reset = [127, 191, 223, 239, 247, 251, 253, 254]"

text \<open>\<^verbatim>\<open>while(nBytes > SECTOR_SIZE) nBytes = nBytes - SECTOR_SIZE;\<close> does not terminate for a
  sector size that is not positive.\<close>

partial_function (option) bitmap_reset_loop :: "config \<Rightarrow> int \<Rightarrow> int option" where
  "bitmap_reset_loop c nBytes =
     (if SECTOR_SIZE c < nBytes then bitmap_reset_loop c (nBytes - SECTOR_SIZE c)
      else Some nBytes)"

declare bitmap_reset_loop.simps [code]

definition bitmap_reset ::
  "config \<Rightarrow> fs_state \<Rightarrow> int \<Rightarrow> int \<Rightarrow> int \<Rightarrow> (int \<times> fs_state) option" where
  "bitmap_reset c st start num ibit =
     (if SECTOR_SIZE c * num < cdiv ibit 8 then Some (- 1, st)
      else
        do {
          nBytes \<leftarrow> bitmap_reset_loop c (cdiv ibit 8);
          (case Disk_Read c st start of
             None \<Rightarrow> Some (- 1, set_errno E_GENERAL st)
           | Some sec \<Rightarrow>
               do {
                 buffer \<leftarrow> as_bytes c sec;
                 b \<leftarrow> nth_opt buffer nBytes;
                 m \<leftarrow> nth_opt mask_reset (cmod ibit 8);
                 buffer1 \<leftarrow> upd_opt buffer nBytes (b AND m);
                 (case Disk_Write c st start (Raw buffer1) of
                    None \<Rightarrow> Some (- 1, set_errno E_GENERAL st)
                  | Some st1 \<Rightarrow> Some (0, st1))
               })
        })"

subsection \<open>File names and paths\<close>

text \<open>\<^verbatim>\<open>isalnum\<close> in the C locale.\<close>

definition isalnum :: "char \<Rightarrow> bool" where
  "isalnum ch =
     (let n = (of_char ch :: nat) in
      (48 \<le> n \<and> n \<le> 57) \<or> (65 \<le> n \<and> n \<le> 90) \<or> (97 \<le> n \<and> n \<le> 122))"

text \<open>The loop of \<^verbatim>\<open>illegal_filename\<close> stops at the first illegal character with the
  flag cleared.\<close>

fun illegal_filename_loop :: "string \<Rightarrow> bool" where
  "illegal_filename_loop [] = True"
| "illegal_filename_loop (ch # name) =
     (if isalnum ch \<or> ch = CHR ''.'' \<or> ch = CHR ''-'' \<or> ch = CHR ''_''
      then illegal_filename_loop name else False)"

definition illegal_filename :: "string \<Rightarrow> int" where
  "illegal_filename name =
     (let flag = illegal_filename_loop name;
          flag1 = (if MAX_NAME - 1 < int (length name) then False else flag)
      in if flag1 then 0 else 1)"

text \<open>The sector of the inode table that holds inode \<open>n\<close>, and the index of the inode in
  that sector (with the \<^verbatim>\<open>assert\<close> on it).\<close>

definition inode_sector_of :: "config \<Rightarrow> int \<Rightarrow> int option" where
  "inode_sector_of c n =
     do { q \<leftarrow> udiv n (INODES_PER_SECTOR c); Some (INODE_TABLE_START_SECTOR c + q) }"

definition inode_offset :: "config \<Rightarrow> int \<Rightarrow> int \<Rightarrow> int option" where
  "inode_offset c inode_sector n =
     (let inode_start_index = (inode_sector - INODE_TABLE_START_SECTOR c) * INODES_PER_SECTOR c;
          offset = n - inode_start_index
      in if 0 \<le> offset \<and> offset < INODES_PER_SECTOR c then Some offset else None)"

text \<open>The inode at \<open>offset\<close> of an inode-table sector buffer, and the buffer with that inode
  replaced.\<close>

definition get_inode :: "config \<Rightarrow> sector \<Rightarrow> int \<Rightarrow> inode_t option" where
  "get_inode c buf offset = do { xs \<leftarrow> as_inodes c buf; nth_opt xs offset }"

definition put_inode :: "config \<Rightarrow> sector \<Rightarrow> int \<Rightarrow> inode_t \<Rightarrow> sector option" where
  "put_inode c buf offset v =
     do { xs \<leftarrow> as_inodes c buf; ys \<leftarrow> upd_opt xs offset v; Some (Inodes ys) }"

definition get_dirent :: "config \<Rightarrow> sector \<Rightarrow> int \<Rightarrow> dirent_t option" where
  "get_dirent c buf i = do { xs \<leftarrow> as_dirents c buf; nth_opt xs i }"

definition put_dirent :: "config \<Rightarrow> sector \<Rightarrow> int \<Rightarrow> dirent_t \<Rightarrow> sector option" where
  "put_dirent c buf i v =
     do { xs \<leftarrow> as_dirents c buf; ys \<leftarrow> upd_opt xs i v; Some (Dirents ys) }"

text \<open>The \<^verbatim>\<open>for\<close> loop of \<^verbatim>\<open>find_child_inode\<close> over the entries of one sector. The inner
  option is the inode of the entry found; the loop breaks at \<^verbatim>\<open>i > nentries\<close>.\<close>

function find_child_scan ::
  "config \<Rightarrow> sector \<Rightarrow> string \<Rightarrow> int \<Rightarrow> int \<Rightarrow> int option option" where
  "find_child_scan c buffer fname nentries i =
     (if i < DIRENTS_PER_SECTOR c then
        (if nentries < i then Some None
         else
           do {
             e \<leftarrow> get_dirent c buffer i;
             (if d_fname e = fname then Some (Some (d_inode e))
              else find_child_scan c buffer fname nentries (i + 1))
           })
      else Some None)"
  by pat_completeness auto
termination
  by (relation "measure (\<lambda>(c, buffer, fname, nentries, i). nat (DIRENTS_PER_SECTOR c - i))") auto

text \<open>The \<^verbatim>\<open>while(nentries > 0)\<close> loop of \<^verbatim>\<open>find_child_inode\<close>. The result is the return
  value with the inode cache (sector number and buffer).\<close>

partial_function (option) find_child_loop ::
  "config \<Rightarrow> fs_state \<Rightarrow> inode_t \<Rightarrow> string \<Rightarrow> int \<Rightarrow> int \<Rightarrow> int \<Rightarrow> sector
    \<Rightarrow> (int \<times> int \<times> sector) option" where
  "find_child_loop c st parent fname nentries idx cached_inode_sector cached_inode_buffer =
     (if 0 < nentries then
        do {
          s \<leftarrow> nth_opt (i_data parent) idx;
          (case Disk_Read c st s of
             None \<Rightarrow> Some (- 2, cached_inode_sector, cached_inode_buffer)
           | Some buffer \<Rightarrow>
               do {
                 r \<leftarrow> find_child_scan c buffer fname nentries 0;
                 (case r of
                    Some child_inode \<Rightarrow>
                      do {
                        sector \<leftarrow> inode_sector_of c child_inode;
                        (if sector = cached_inode_sector
                         then Some (child_inode, cached_inode_sector, cached_inode_buffer)
                         else
                           (case Disk_Read c st sector of
                              None \<Rightarrow> Some (- 2, sector, cached_inode_buffer)
                            | Some buf \<Rightarrow> Some (child_inode, sector, buf)))
                      }
                  | None \<Rightarrow>
                      find_child_loop c st parent fname (nentries - DIRENTS_PER_SECTOR c)
                        (idx + 1) cached_inode_sector cached_inode_buffer)
               })
        }
      else Some (- 1, cached_inode_sector, cached_inode_buffer))"

declare find_child_loop.simps [code]

definition find_child_inode ::
  "config \<Rightarrow> fs_state \<Rightarrow> int \<Rightarrow> string \<Rightarrow> int \<Rightarrow> sector \<Rightarrow> (int \<times> int \<times> sector) option" where
  "find_child_inode c st parent_inode fname cached_inode_sector cached_inode_buffer =
     do {
       offset \<leftarrow> inode_offset c cached_inode_sector parent_inode;
       parent \<leftarrow> get_inode c cached_inode_buffer offset;
       (if i_type parent = 1
        then find_child_loop c st parent fname (i_size parent) 0 cached_inode_sector
               cached_inode_buffer
        else Some (- 2, cached_inode_sector, cached_inode_buffer))
     }"

text \<open>The tokens that successive calls of \<^verbatim>\<open>strsep(&lpath, "/")\<close> return.\<close>

fun strsep_tokens :: "string \<Rightarrow> string list" where
  "strsep_tokens [] = [[]]"
| "strsep_tokens (ch # s) =
     (if ch = CHR ''/'' then [] # strsep_tokens s
      else (case strsep_tokens s of [] \<Rightarrow> [[ch]] | t # ts \<Rightarrow> (ch # t) # ts))"

text \<open>The token loop of \<^verbatim>\<open>follow_path\<close>. The inner \<open>None\<close> is the early \<^verbatim>\<open>return -1\<close>; otherwise
  the loop ends with \<open>parent_inode\<close>, \<open>child_inode\<close> and the last file name copied.\<close>

fun follow_path_loop ::
  "config \<Rightarrow> fs_state \<Rightarrow> string list \<Rightarrow> int \<Rightarrow> int \<Rightarrow> int \<Rightarrow> sector \<Rightarrow> string option
    \<Rightarrow> (int \<times> int \<times> string option) option option" where
  "follow_path_loop c st [] parent_inode child_inode cached_sector cached_buffer last_filename =
     Some (Some (parent_inode, child_inode, last_filename))"
| "follow_path_loop c st (token # rest) parent_inode child_inode cached_sector cached_buffer
     last_filename =
     (if token = [] then
        follow_path_loop c st rest parent_inode child_inode cached_sector cached_buffer
          last_filename
      else if illegal_filename token = 0 then
        (if child_inode < 0 then Some None
         else
           do {
             (r, cs, cb) \<leftarrow> find_child_inode c st child_inode token cached_sector cached_buffer;
             follow_path_loop c st rest child_inode r cs cb (Some token)
           })
      else Some None)"

text \<open>\<^verbatim>\<open>follow_path\<close> returns the parent inode (or -1), the child inode through
  \<^verbatim>\<open>last_inode\<close> and the last name through \<^verbatim>\<open>last_filename\<close>. On a \<^verbatim>\<open>return -1\<close> the C code
  leaves \<^verbatim>\<open>*last_inode\<close> unassigned: that is \<open>None\<close> in the second component.\<close>

definition follow_path ::
  "config \<Rightarrow> fs_state \<Rightarrow> string \<Rightarrow> (int \<times> int option \<times> string option) option" where
  "follow_path c st path =
     (case path of
        [] \<Rightarrow> Some (- 1, None, None)
      | ch # rest \<Rightarrow>
          (if ch = CHR ''/'' then
             (let pathstore = take (nat (MAX_PATH - 1)) rest in
              case Disk_Read c st (INODE_TABLE_START_SECTOR c) of
                None \<Rightarrow> Some (- 1, None, None)
              | Some cached_buffer \<Rightarrow>
                  do {
                    r \<leftarrow> follow_path_loop c st (strsep_tokens pathstore) (- 1) 0
                           (INODE_TABLE_START_SECTOR c) cached_buffer None;
                    (case r of
                       None \<Rightarrow> Some (- 1, None, None)
                     | Some (parent_inode, child_inode, last_filename) \<Rightarrow>
                         (if child_inode < - 1 then Some (- 1, None, last_filename)
                          else
                            Some (if parent_inode = - 1 \<and> child_inode = 0 then 0 else parent_inode,
                                  Some child_inode, last_filename)))
                  })
           else Some (- 1, None, None)))"

subsection \<open>Creating and removing inodes\<close>

text \<open>\<^verbatim>\<open>strncpy(dirent->fname, file, MAX_NAME)\<close>: a name of \<^verbatim>\<open>MAX_NAME\<close> characters or more
  would leave the field without its terminating zero.\<close>

definition strncpy_fname :: "string \<Rightarrow> string option" where
  "strncpy_fname file = (if int (length file) < MAX_NAME then Some file else None)"

definition add_inode ::
  "config \<Rightarrow> fs_state \<Rightarrow> int \<Rightarrow> int \<Rightarrow> string option \<Rightarrow> (int \<times> fs_state) option" where
  "add_inode c st type parent_inode file =
     do {
       (child_inode, st1) \<leftarrow> bitmap_first_unused c st INODE_BITMAP_START_SECTOR
          (INODE_BITMAP_SECTORS c) (INODE_BITMAP_SIZE c);
       (if child_inode < 0 then Some (- 1, st1)
        else
          do {
            inode_sector \<leftarrow> inode_sector_of c child_inode;
            (case Disk_Read c st1 inode_sector of
               None \<Rightarrow> Some (- 1, st1)
             | Some inode_buffer \<Rightarrow>
                 do {
                   offset \<leftarrow> inode_offset c inode_sector child_inode;
                   inode_buffer1 \<leftarrow> put_inode c inode_buffer offset ((zero_inode c)\<lparr> i_type := type \<rparr>);
                   (case Disk_Write c st1 inode_sector inode_buffer1 of
                      None \<Rightarrow> Some (- 1, st1)
                    | Some st2 \<Rightarrow>
                        do {
                          inode_sector2 \<leftarrow> inode_sector_of c parent_inode;
                          (case Disk_Read c st2 inode_sector2 of
                             None \<Rightarrow> Some (- 1, st2)
                           | Some inode_buffer2 \<Rightarrow>
                               do {
                                 offset2 \<leftarrow> inode_offset c inode_sector2 parent_inode;
                                 parent \<leftarrow> get_inode c inode_buffer2 offset2;
                                 (if i_type parent = 1 then
                                     do {
                                       group \<leftarrow> udiv (i_size parent) (DIRENTS_PER_SECTOR c);
                                       r \<leftarrow>
                                         (if group * DIRENTS_PER_SECTOR c = i_size parent then
                                            do {
                                              (newsec, st3) \<leftarrow> bitmap_first_unused c st2
                                                 (SECTOR_BITMAP_START_SECTOR c)
                                                 (SECTOR_BITMAP_SECTORS c) (SECTOR_BITMAP_SIZE c);
                                              (if newsec < 0 then Some (Inl st3)
                                               else
                                                 do {
                                                   d \<leftarrow> upd_opt (i_data parent) group newsec;
                                                   Some (Inr (parent\<lparr> i_data := d \<rparr>, Zero, st3))
                                                 })
                                            }
                                          else
                                            do {
                                              s \<leftarrow> nth_opt (i_data parent) group;
                                              (case Disk_Read c st2 s of
                                                 None \<Rightarrow> Some (Inl st2)
                                               | Some b \<Rightarrow> Some (Inr (parent, b, st2)))
                                            });
                                       (case r of
                                          Inl st3 \<Rightarrow> Some (- 1, st3)
                                        | Inr (parent1, dirent_buffer, st3) \<Rightarrow>
                                            do {
                                              let start_entry = group * DIRENTS_PER_SECTOR c;
                                              let offset3 = i_size parent1 - start_entry;
                                              fname \<leftarrow> (case file of None \<Rightarrow> None
                                                         | Some f \<Rightarrow> strncpy_fname f);
                                              dirent_buffer1 \<leftarrow> put_dirent c dirent_buffer offset3
                                                 \<lparr> d_fname = fname, d_inode = child_inode \<rparr>;
                                              s \<leftarrow> nth_opt (i_data parent1) group;
                                              (case Disk_Write c st3 s dirent_buffer1 of
                                                 None \<Rightarrow> Some (- 1, st3)
                                               | Some st4 \<Rightarrow>
                                                   do {
                                                     inode_buffer3 \<leftarrow> put_inode c inode_buffer2 offset2
                                                        (parent1\<lparr> i_size := i_size parent1 + 1 \<rparr>);
                                                     (case Disk_Write c st4 inode_sector2 inode_buffer3 of
                                                        None \<Rightarrow> Some (- 1, st4)
                                                      | Some st5 \<Rightarrow> Some (0, st5))
                                                   })
                                            })
                                     }
                                  else Some (- 2, st2))
                               })
                        })
                 })
          })
     }"

definition create_file_or_directory ::
  "config \<Rightarrow> fs_state \<Rightarrow> int \<Rightarrow> string \<Rightarrow> (int \<times> fs_state) option" where
  "create_file_or_directory c st type pathname =
     do {
       (parent_inode, child_inode, last_filename) \<leftarrow> follow_path c st pathname;
       (if 0 \<le> parent_inode then
          do {
            ci \<leftarrow> child_inode;
            (if 0 \<le> ci then Some (- 1, set_errno E_CREATE st)
             else
               do {
                 (r, st1) \<leftarrow> add_inode c st type parent_inode last_filename;
                 (if 0 \<le> r then Some (0, st1) else Some (- 1, set_errno E_CREATE st1))
               })
          }
        else Some (- 1, set_errno E_CREATE st))
     }"

text \<open>The loop of \<^verbatim>\<open>remove_inode\<close> that gives the data sectors of a file back to the sector
  bitmap; the result of \<^verbatim>\<open>bitmap_reset\<close> is ignored.\<close>

function remove_inode_reclaim :: "config \<Rightarrow> fs_state \<Rightarrow> inode_t \<Rightarrow> int \<Rightarrow> fs_state option" where
  "remove_inode_reclaim c st child i =
     (if i < MAX_SECTORS_PER_FILE c then
        do {
          d \<leftarrow> nth_opt (i_data child) i;
          st1 \<leftarrow>
            (if 0 < d then
               do {
                 (r, st1) \<leftarrow> bitmap_reset c st (SECTOR_BITMAP_START_SECTOR c)
                    (SECTOR_BITMAP_SECTORS c) d;
                 Some st1
               }
             else Some st);
          remove_inode_reclaim c st1 child (i + 1)
        }
      else Some st)"
  by pat_completeness auto
termination
  by (relation "measure (\<lambda>(c, st, child, i). nat (MAX_SECTORS_PER_FILE c - i))") auto

text \<open>The inner loop of the search in \<^verbatim>\<open>remove_inode\<close>: the first entry of the sector whose
  inode is \<open>child_inode\<close>.\<close>

function remove_inode_entry :: "config \<Rightarrow> sector \<Rightarrow> int \<Rightarrow> int \<Rightarrow> int option option" where
  "remove_inode_entry c dirent_buffer child_inode entry =
     (if entry < DIRENTS_PER_SECTOR c then
        do {
          current_dirent \<leftarrow> get_dirent c dirent_buffer entry;
          (if d_inode current_dirent = child_inode then Some (Some entry)
           else remove_inode_entry c dirent_buffer child_inode (entry + 1))
        }
      else Some None)"
  by pat_completeness auto
termination
  by (relation "measure (\<lambda>(c, dirent_buffer, child_inode, entry).
        nat (DIRENTS_PER_SECTOR c - entry))") auto

text \<open>The outer loop over the groups. The entry found is overwritten with \<open>last_dirent\<close> and
  its sector \<open>dirent_buffer\<close> is written; the zeroing of the last entry happens in
  \<open>last_dirent_buffer\<close>, which is never written back. \<open>Inl\<close> is a \<^verbatim>\<open>return -1\<close>.\<close>

function remove_inode_group ::
  "config \<Rightarrow> fs_state \<Rightarrow> inode_t \<Rightarrow> dirent_t \<Rightarrow> int \<Rightarrow> sector \<Rightarrow> int \<Rightarrow> int
    \<Rightarrow> (fs_state + fs_state) option" where
  "remove_inode_group c st parent last_dirent inode_sector inode_buffer child_inode grp =
     (if grp < MAX_SECTORS_PER_FILE c then
        do {
          s \<leftarrow> nth_opt (i_data parent) grp;
          (case Disk_Read c st s of
             None \<Rightarrow> Some (Inl st)
           | Some dirent_buffer \<Rightarrow>
               do {
                 r \<leftarrow> remove_inode_entry c dirent_buffer child_inode 0;
                 (case r of
                    Some entry \<Rightarrow>
                      do {
                        dirent_buffer1 \<leftarrow> put_dirent c dirent_buffer entry last_dirent;
                        (case Disk_Write c st s dirent_buffer1 of
                           None \<Rightarrow> Some (Inl st)
                         | Some st1 \<Rightarrow>
                             (case Disk_Write c st1 inode_sector inode_buffer of
                                None \<Rightarrow> Some (Inl st1)
                              | Some st2 \<Rightarrow> Some (Inr st2)))
                      }
                  | None \<Rightarrow>
                      remove_inode_group c st parent last_dirent inode_sector inode_buffer
                        child_inode (grp + 1))
               })
        }
      else Some (Inr st))"
  by pat_completeness auto
termination
  by (relation "measure (\<lambda>(c, st, parent, last_dirent, inode_sector, inode_buffer, child_inode,
        grp). nat (MAX_SECTORS_PER_FILE c - grp))") auto

definition remove_inode ::
  "config \<Rightarrow> fs_state \<Rightarrow> int \<Rightarrow> int \<Rightarrow> int \<Rightarrow> (int \<times> fs_state) option" where
  "remove_inode c st type parent_inode child_inode =
     do {
       inode_sector \<leftarrow> inode_sector_of c child_inode;
       (case Disk_Read c st inode_sector of
          None \<Rightarrow> Some (- 1, st)
        | Some inode_buffer \<Rightarrow>
            do {
              offset \<leftarrow> inode_offset c inode_sector child_inode;
              child \<leftarrow> get_inode c inode_buffer offset;
              (if i_type child = type then
                 (if i_type child = 1 \<and> 0 < i_size child then Some (- 2, st)
                  else
                    do {
                      st1 \<leftarrow> (if i_type child = 0 then remove_inode_reclaim c st child 0
                               else Some st);
                      inode_buffer1 \<leftarrow> put_inode c inode_buffer offset (zero_inode c);
                      (case Disk_Write c st1 inode_sector inode_buffer1 of
                         None \<Rightarrow> Some (- 1, st1)
                       | Some st2 \<Rightarrow>
                           do {
                             (r, st3) \<leftarrow> bitmap_reset c st2 INODE_BITMAP_START_SECTOR
                                (INODE_BITMAP_SECTORS c) child_inode;
                             inode_sector2 \<leftarrow> inode_sector_of c parent_inode;
                             (case Disk_Read c st3 inode_sector2 of
                                None \<Rightarrow> Some (- 1, st3)
                              | Some inode_buffer2 \<Rightarrow>
                                  do {
                                    offset2 \<leftarrow> inode_offset c inode_sector2 parent_inode;
                                    parent \<leftarrow> get_inode c inode_buffer2 offset2;
                                    (if i_type parent = 1 then
                                       do {
                                         r2 \<leftarrow>
                                           (if 1 < i_size parent then
                                               do {
                                                 last_group \<leftarrow> udiv (i_size parent)
                                                    (DIRENTS_PER_SECTOR c);
                                                 last_sector \<leftarrow> nth_opt (i_data parent) last_group;
                                                 (case Disk_Read c st3 last_sector of
                                                    None \<Rightarrow> Some (Inl st3)
                                                  | Some last_dirent_buffer \<Rightarrow>
                                                      do {
                                                        let start_entry =
                                                          last_group * DIRENTS_PER_SECTOR c;
                                                        let offset3 =
                                                          i_size parent - start_entry - 1;
                                                        last_dirent \<leftarrow> get_dirent c
                                                           last_dirent_buffer offset3;
                                                        remove_inode_group c st3 parent last_dirent
                                                          inode_sector2 inode_buffer2 child_inode 0
                                                      })
                                               }
                                            else Some (Inr st3));
                                         (case r2 of
                                            Inl st4 \<Rightarrow> Some (- 1, st4)
                                          | Inr st4 \<Rightarrow>
                                              do {
                                                inode_buffer3 \<leftarrow> put_inode c inode_buffer2 offset2
                                                   (parent\<lparr> i_size := i_size parent - 1 \<rparr>);
                                                (case Disk_Write c st4 inode_sector2 inode_buffer3 of
                                                   None \<Rightarrow> Some (- 1, st4)
                                                 | Some st5 \<Rightarrow> Some (0, st5))
                                              })
                                       }
                                     else Some (- 2, st3))
                                  })
                           })
                    })
               else Some (- 3, st))
            })
     }"

subsection \<open>The open-file table\<close>

fun is_file_open_loop :: "open_file_t list \<Rightarrow> int \<Rightarrow> int" where
  "is_file_open_loop [] inode = 0"
| "is_file_open_loop (e # es) inode =
     (if of_inode e = inode then 1 else is_file_open_loop es inode)"

definition is_file_open :: "fs_state \<Rightarrow> int \<Rightarrow> int" where
  "is_file_open st inode = is_file_open_loop (take (nat MAX_OPEN_FILES) (open_files st)) inode"

fun new_file_fd_loop :: "open_file_t list \<Rightarrow> int \<Rightarrow> int" where
  "new_file_fd_loop [] i = - 1"
| "new_file_fd_loop (e # es) i = (if of_inode e \<le> 0 then i else new_file_fd_loop es (i + 1))"

definition new_file_fd :: "fs_state \<Rightarrow> int" where
  "new_file_fd st = new_file_fd_loop (take (nat MAX_OPEN_FILES) (open_files st)) 0"

definition get_open_file :: "fs_state \<Rightarrow> int \<Rightarrow> open_file_t option" where
  "get_open_file st fd = nth_opt (take (nat MAX_OPEN_FILES) (open_files st)) fd"

definition put_open_file :: "fs_state \<Rightarrow> int \<Rightarrow> open_file_t \<Rightarrow> fs_state option" where
  "put_open_file st fd e =
     (if fd < MAX_OPEN_FILES then
        do { xs \<leftarrow> upd_opt (open_files st) fd e; Some (st\<lparr> open_files := xs \<rparr>) }
      else None)"

subsection \<open>Booting\<close>

function FS_Boot_inode_table :: "config \<Rightarrow> fs_state \<Rightarrow> int \<Rightarrow> fs_state option option" where
  "FS_Boot_inode_table c st i =
     (if i < INODE_TABLE_SECTORS c then
        do {
          buffer \<leftarrow>
            (if i = 0 then
               put_inode c Zero 0 ((zero_inode c)\<lparr> i_size := 0, i_type := 1 \<rparr>)
             else Some Zero);
          (case Disk_Write c st (INODE_TABLE_START_SECTOR c + i) buffer of
             None \<Rightarrow> Some None
           | Some st1 \<Rightarrow> FS_Boot_inode_table c st1 (i + 1))
        }
      else Some (Some st))"
  by pat_completeness auto
termination
  by (relation "measure (\<lambda>(c, st, i). nat (INODE_TABLE_SECTORS c - i))") auto

definition check_magic :: "config \<Rightarrow> fs_state \<Rightarrow> int option" where
  "check_magic c st =
     (case Disk_Read c st SUPERBLOCK_START_SECTOR of
        None \<Rightarrow> Some 0
      | Some (Super m) \<Rightarrow> Some (if m = OS_MAGIC then 1 else 0)
      | Some Zero \<Rightarrow> Some 0
      | Some (Raw bs) \<Rightarrow> (if all_zero bs then Some 0 else None)
      | Some _ \<Rightarrow> None)"

text \<open>\<^verbatim>\<open>FS_Boot\<close>. The backing store is \<open>None\<close> when its file cannot be opened (then the
  zero-filled disk of \<^verbatim>\<open>Disk_Init\<close> is formatted) and the loaded image otherwise;
  \<^verbatim>\<open>Disk_Init\<close>, \<^verbatim>\<open>Disk_Save\<close> and the check of the file's length are taken to succeed.\<close>

definition FS_Boot ::
  "config \<Rightarrow> fs_state \<Rightarrow> (int \<Rightarrow> sector) option \<Rightarrow> (int \<times> fs_state) option" where
  "FS_Boot c st backstore =
     (case backstore of
        None \<Rightarrow>
          (let st0 = st\<lparr> disk := (\<lambda>s. Zero) \<rparr> in
           case Disk_Write c st0 SUPERBLOCK_START_SECTOR (Super OS_MAGIC) of
             None \<Rightarrow> Some (- 1, set_errno E_GENERAL st0)
           | Some st1 \<Rightarrow>
               do {
                 st2 \<leftarrow> bitmap_init c st1 INODE_BITMAP_START_SECTOR (INODE_BITMAP_SECTORS c) 1;
                 st3 \<leftarrow> bitmap_init c st2 (SECTOR_BITMAP_START_SECTOR c) (SECTOR_BITMAP_SECTORS c)
                          (DATABLOCK_START_SECTOR c);
                 r \<leftarrow> FS_Boot_inode_table c st3 0;
                 (case r of
                    None \<Rightarrow> Some (- 1, set_errno E_GENERAL st3)
                  | Some st4 \<Rightarrow>
                      Some (0, st4\<lparr> open_files := replicate (nat MAX_OPEN_FILES)
                                  \<lparr> of_inode = 0, of_size = 0, of_pos = 0 \<rparr> \<rparr>))
               })
      | Some img \<Rightarrow>
          (let st0 = st\<lparr> disk := img \<rparr> in
           do {
             m \<leftarrow> check_magic c st0;
             (if m = 0 then Some (- 1, set_errno E_GENERAL st0)
              else
                Some (0, st0\<lparr> open_files := replicate (nat MAX_OPEN_FILES)
                            \<lparr> of_inode = 0, of_size = 0, of_pos = 0 \<rparr> \<rparr>))
           }))"

subsection \<open>Files\<close>

definition File_Create :: "config \<Rightarrow> fs_state \<Rightarrow> string \<Rightarrow> (int \<times> fs_state) option" where
  "File_Create c st file = create_file_or_directory c st 0 file"

definition unlink_result :: "int \<Rightarrow> fs_state \<Rightarrow> int \<times> fs_state" where
  "unlink_result result st =
     (if result = 0 then (0, st)
      else if result = - 1 then (- 1, set_errno E_GENERAL st)
      else if result = - 2 then (- 1, set_errno E_DIR_NOT_EMPTY st)
      else if result = - 3 then (- 1, set_errno E_GENERAL st)
      else (- 1, st))"

definition File_Unlink :: "config \<Rightarrow> fs_state \<Rightarrow> string \<Rightarrow> (int \<times> fs_state) option" where
  "File_Unlink c st file =
     do {
       (parent_inode, child_inode, last_filename) \<leftarrow> follow_path c st file;
       (if 0 \<le> parent_inode then
          do {
            ci \<leftarrow> child_inode;
            (if 0 \<le> ci then
               (if is_file_open st ci = 1 then Some (- 1, set_errno E_FILE_IN_USE st)
                else
                  do {
                    (result, st1) \<leftarrow> remove_inode c st 0 parent_inode ci;
                    Some (unlink_result result st1)
                  })
             else Some (- 1, set_errno E_NO_SUCH_FILE st))
          }
        else Some (- 1, set_errno E_NO_SUCH_FILE st))
     }"

text \<open>\<^verbatim>\<open>File_Open\<close> reads \<^verbatim>\<open>child_inode\<close> whether or not \<^verbatim>\<open>follow_path\<close> assigned it.\<close>

definition File_Open :: "config \<Rightarrow> fs_state \<Rightarrow> string \<Rightarrow> (int \<times> fs_state) option" where
  "File_Open c st file =
     (let fd = new_file_fd st in
      if fd < 0 then Some (- 1, set_errno E_TOO_MANY_OPEN_FILES st)
      else
        do {
          (parent_inode, last_inode, last_filename) \<leftarrow> follow_path c st file;
          child_inode \<leftarrow> last_inode;
          (if 0 \<le> child_inode then
             do {
               inode_sector \<leftarrow> inode_sector_of c child_inode;
               (case Disk_Read c st inode_sector of
                  None \<Rightarrow> Some (- 1, set_errno E_GENERAL st)
                | Some inode_buffer \<Rightarrow>
                    do {
                      offset \<leftarrow> inode_offset c inode_sector child_inode;
                      child \<leftarrow> get_inode c inode_buffer offset;
                      (if i_type child = 0 then
                         do {
                           st1 \<leftarrow> put_open_file st fd
                              \<lparr> of_inode = child_inode, of_size = i_size child, of_pos = 0 \<rparr>;
                           Some (fd, st1)
                         }
                       else Some (- 1, set_errno E_GENERAL st))
                    })
             }
           else Some (- 1, set_errno E_NO_SUCH_FILE st))
        })"

text \<open>\<^verbatim>\<open>File_Read\<close> and \<^verbatim>\<open>File_Write\<close> declare a local \<^verbatim>\<open>char buffer[SECTOR_SIZE]\<close> in the
  body of a function whose parameter is \<^verbatim>\<open>void* buffer\<close>. The model takes the reading under
  which the functions have a meaning: the local array hides the parameter, every later
  \<^verbatim>\<open>buffer\<close> is the sector buffer, and both operands of the \<^verbatim>\<open>memcpy\<close> lie in it. The caller's
  buffer is \<open>ubuf\<close> in the model; the return values, the cursor and the file size do not
  depend on it.

  \<open>memcpy_ok\<close>: both ranges lie in the sector buffer and are the same range or disjoint.
  \<open>memcpy_within\<close> is the sector buffer after the copy; \<^verbatim>\<open>File_Read\<close> does not use the buffer
  again, so there only the check is made.\<close>

definition memcpy_ok :: "config \<Rightarrow> int \<Rightarrow> int \<Rightarrow> int \<Rightarrow> bool" where
  "memcpy_ok c dst src n =
     (0 \<le> n \<and> 0 \<le> dst \<and> dst + n \<le> SECTOR_SIZE c \<and> 0 \<le> src \<and> src + n \<le> SECTOR_SIZE c
      \<and> (dst = src \<or> dst + n \<le> src \<or> src + n \<le> dst))"

definition memcpy_within :: "config \<Rightarrow> sector \<Rightarrow> int \<Rightarrow> int \<Rightarrow> int \<Rightarrow> sector option" where
  "memcpy_within c buf dst src n =
     (if memcpy_ok c dst src n then
        (if dst = src \<or> n = 0 then Some buf
         else
           do {
             bs \<leftarrow> as_bytes c buf;
             Some (Raw (take (nat dst) bs @ take (nat n) (drop (nat src) bs)
                        @ drop (nat (dst + n)) bs))
           })
      else None)"

definition add_pos :: "fs_state \<Rightarrow> int \<Rightarrow> int \<Rightarrow> fs_state option" where
  "add_pos st fd n =
     do { e \<leftarrow> get_open_file st fd; put_open_file st fd (e\<lparr> of_pos := of_pos e + n \<rparr>) }"

function File_Read_loop ::
  "config \<Rightarrow> fs_state \<Rightarrow> int \<Rightarrow> inode_t \<Rightarrow> int \<Rightarrow> int \<Rightarrow> int \<Rightarrow> int \<Rightarrow> int \<Rightarrow> int
    \<Rightarrow> (fs_state + fs_state) option" where
  "File_Read_loop c st fd child i stop sector_index buffer_index sector_bytes bytes_to_read =
     (if i < stop then
        (if MAX_SECTORS_PER_FILE c < i then Some (Inl (set_errno E_FILE_TOO_BIG st))
         else
           do {
             s \<leftarrow> nth_opt (i_data child) i;
             (case Disk_Read c st s of
                Some buffer \<Rightarrow>
                  do {
                    buffer1 \<leftarrow> (if memcpy_ok c buffer_index sector_index sector_bytes
                                then Some buffer else None);
                    st1 \<leftarrow> add_pos st fd sector_bytes;
                    (let bytes_to_read1 = bytes_to_read - sector_bytes in
                     File_Read_loop c st1 fd child (i + 1) stop sector_index
                       (buffer_index + sector_bytes)
                       (if bytes_to_read1 < SECTOR_SIZE c then bytes_to_read1 else SECTOR_SIZE c)
                       bytes_to_read1)
                  }
              | None \<Rightarrow> Some (Inl (set_errno E_GENERAL st)))
           })
      else Some (Inr st))"
  by pat_completeness auto
termination
  by (relation "measure (\<lambda>(c, st, fd, child, i, stop, sector_index, buffer_index, sector_bytes,
        bytes_to_read). nat (stop - i))") auto

definition File_Read ::
  "config \<Rightarrow> fs_state \<Rightarrow> int \<Rightarrow> byte list \<Rightarrow> int \<Rightarrow> (int \<times> fs_state \<times> byte list) option" where
  "File_Read c st fd ubuf sz =
     do {
       e \<leftarrow> get_open_file st fd;
       (if is_file_open st (of_inode e) = 1 then
          do {
            end0 \<leftarrow> add32 (of_pos e) sz;
            let end_of_read = (if of_size e < end0 then of_size e else end0);
            let child_inode = of_inode e;
            inode_sector \<leftarrow> inode_sector_of c child_inode;
            (case Disk_Read c st inode_sector of
               None \<Rightarrow> Some (- 1, st, ubuf)
             | Some inode_buffer \<Rightarrow>
                 do {
                   offset \<leftarrow> inode_offset c inode_sector child_inode;
                   child \<leftarrow> get_inode c inode_buffer offset;
                   (if i_type child = 0 then
                      do {
                        let bytes_to_read = end_of_read - of_pos e;
                        let bytes_read = bytes_to_read;
                        offset_sector_toLoad \<leftarrow> c_div (of_pos e) (SECTOR_SIZE c);
                        sector_index \<leftarrow> c_mod (of_pos e) (SECTOR_SIZE c);
                        let sector_bytes = (if bytes_to_read < SECTOR_SIZE c then bytes_to_read
                                            else SECTOR_SIZE c - sector_index);
                        let buffer_index = 0;
                        d \<leftarrow> add32 end_of_read (- (SECTOR_SIZE c - sector_index));
                        sectors_to_read \<leftarrow> c_div d (SECTOR_SIZE c);
                        (if of_size e \<le> of_pos e then Some (0, st, ubuf)
                         else
                           do {
                             r \<leftarrow> File_Read_loop c st fd child offset_sector_toLoad
                                    (offset_sector_toLoad + sectors_to_read + 1) sector_index
                                    buffer_index sector_bytes bytes_to_read;
                             (case r of
                                Inl st1 \<Rightarrow> Some (- 1, st1, ubuf)
                              | Inr st1 \<Rightarrow> Some (bytes_read, st1, ubuf))
                           })
                      }
                    else Some (- 1, set_errno E_GENERAL st, ubuf))
                 })
          }
        else Some (- 1, set_errno E_BAD_FD st, ubuf))
     }"

function File_Write_loop ::
  "config \<Rightarrow> fs_state \<Rightarrow> int \<Rightarrow> inode_t \<Rightarrow> int \<Rightarrow> int \<Rightarrow> int \<Rightarrow> int \<Rightarrow> int \<Rightarrow> int
    \<Rightarrow> (fs_state + fs_state \<times> inode_t) option" where
  "File_Write_loop c st fd child i stop sector_index buffer_index sector_bytes remainder_bytes =
     (if i < stop then
        (if MAX_SECTORS_PER_FILE c < i then Some (Inl (set_errno E_FILE_TOO_BIG st))
         else
           do {
             d \<leftarrow> nth_opt (i_data child) i;
             r \<leftarrow>
               (if d = 0 then
                  do {
                    (newsec, st1) \<leftarrow> bitmap_first_unused c st (SECTOR_BITMAP_START_SECTOR c)
                       (SECTOR_BITMAP_SECTORS c) (SECTOR_BITMAP_SIZE c);
                    data1 \<leftarrow> upd_opt (i_data child) i newsec;
                    (if newsec < 0 then Some (Inl (set_errno E_NO_SPACE st1))
                     else Some (Inr (child\<lparr> i_data := data1 \<rparr>, newsec, st1)))
                  }
                else Some (Inr (child, d, st)));
             (case r of
                Inl st1 \<Rightarrow> Some (Inl st1)
              | Inr (child1, d1, st1) \<Rightarrow>
                  (case Disk_Read c st1 d1 of
                     Some buffer \<Rightarrow>
                       do {
                         buffer1 \<leftarrow> memcpy_within c buffer sector_index buffer_index sector_bytes;
                         st2 \<leftarrow> add_pos st1 fd sector_bytes;
                         (let remainder_bytes1 = remainder_bytes - sector_bytes in
                          case Disk_Write c st2 d1 buffer1 of
                            None \<Rightarrow> Some (Inl (set_errno E_GENERAL st2))
                          | Some st3 \<Rightarrow>
                              File_Write_loop c st3 fd child1 (i + 1) stop sector_index
                                (buffer_index + sector_bytes)
                                (if remainder_bytes1 < SECTOR_SIZE c then remainder_bytes1
                                 else SECTOR_SIZE c)
                                remainder_bytes1)
                       }
                   | None \<Rightarrow> Some (Inl (set_errno E_GENERAL st1))))
           })
      else Some (Inr (st, child)))"
  by pat_completeness auto
termination
  by (relation "measure (\<lambda>(c, st, fd, child, i, stop, sector_index, buffer_index, sector_bytes,
        remainder_bytes). nat (stop - i))") auto

definition File_Write ::
  "config \<Rightarrow> fs_state \<Rightarrow> int \<Rightarrow> byte list \<Rightarrow> int \<Rightarrow> (int \<times> fs_state) option" where
  "File_Write c st fd ubuf sz =
     do {
       e \<leftarrow> get_open_file st fd;
       (if is_file_open st (of_inode e) = 1 then
          do {
            total \<leftarrow> add32 (of_size e) sz;
            (if MAX_FILE_SIZE c < total then Some (- 1, set_errno E_FILE_TOO_BIG st)
             else
               do {
                 let child_inode = of_inode e;
                 inode_sector \<leftarrow> inode_sector_of c child_inode;
                 (case Disk_Read c st inode_sector of
                    None \<Rightarrow> Some (- 1, st)
                  | Some inode_buffer \<Rightarrow>
                      do {
                        offset \<leftarrow> inode_offset c inode_sector child_inode;
                        child \<leftarrow> get_inode c inode_buffer offset;
                        (if i_type child = 0 then
                           do {
                             offset_sector_toLoad \<leftarrow> c_div (of_pos e) (SECTOR_SIZE c);
                             sector_index \<leftarrow> c_mod (of_pos e) (SECTOR_SIZE c);
                             end0 \<leftarrow> add32 (of_pos e) sz;
                             let remainder_bytes = (if MAX_FILE_SIZE c < end0
                                                    then MAX_FILE_SIZE c - of_pos e else sz);
                             let sector_bytes = SECTOR_SIZE c - sector_index;
                             let buffer_index = 0;
                             d \<leftarrow> add32 sz (- (SECTOR_SIZE c - sector_index));
                             sectors_to_write \<leftarrow> c_div d (SECTOR_SIZE c);
                             r \<leftarrow> File_Write_loop c st fd child offset_sector_toLoad
                                    (sectors_to_write + 1) sector_index buffer_index sector_bytes
                                    remainder_bytes;
                             (case r of
                                Inl st1 \<Rightarrow> Some (- 1, st1)
                              | Inr (st1, child1) \<Rightarrow>
                                  do {
                                    e1 \<leftarrow> get_open_file st1 fd;
                                    st2 \<leftarrow> put_open_file st1 fd (e1\<lparr> of_size := of_pos e1 \<rparr>);
                                    inode_buffer1 \<leftarrow> put_inode c inode_buffer offset
                                       (child1\<lparr> i_size := of_pos e1 \<rparr>);
                                    (case Disk_Write c st2 inode_sector inode_buffer1 of
                                       None \<Rightarrow> Some (- 1, set_errno E_GENERAL st2)
                                     | Some st3 \<Rightarrow> Some (sz, st3))
                                  })
                           }
                         else Some (- 1, set_errno E_GENERAL st))
                      })
               })
          }
        else Some (- 1, set_errno E_BAD_FD st))
     }"

definition File_Seek :: "fs_state \<Rightarrow> int \<Rightarrow> int \<Rightarrow> (int \<times> fs_state) option" where
  "File_Seek st fd offset =
     do {
       e \<leftarrow> get_open_file st fd;
       (if is_file_open st (of_inode e) = 1 then
          (if of_size e < offset \<or> of_size e < 0
           then Some (- 1, set_errno E_SEEK_OUT_OF_BOUNDS st)
           else
             do {
               st1 \<leftarrow> put_open_file st fd (e\<lparr> of_pos := offset \<rparr>);
               e1 \<leftarrow> get_open_file st1 fd;
               Some (of_pos e1, st1)
             })
        else Some (- 1, set_errno E_BAD_FD st))
     }"

definition File_Close :: "fs_state \<Rightarrow> int \<Rightarrow> (int \<times> fs_state) option" where
  "File_Close st fd =
     (if fd < 0 \<or> MAX_OPEN_FILES < fd then Some (- 1, set_errno E_BAD_FD st)
      else
        do {
          e \<leftarrow> get_open_file st fd;
          (if of_inode e \<le> 0 then Some (- 1, set_errno E_BAD_FD st)
           else
             do { st1 \<leftarrow> put_open_file st fd (e\<lparr> of_inode := 0 \<rparr>); Some (0, st1) })
        })"

subsection \<open>Directories\<close>


definition Dir_Unlink :: "config \<Rightarrow> fs_state \<Rightarrow> string \<Rightarrow> (int \<times> fs_state) option" where
  "Dir_Unlink c st path =
     do {
       (parent_inode, child_inode, last_filename) \<leftarrow> follow_path c st path;
       (if 0 \<le> parent_inode then
          do {
            ci \<leftarrow> child_inode;
            (if 0 \<le> ci then
               do {
                 (result, st1) \<leftarrow> remove_inode c st 1 parent_inode ci;
                 Some (unlink_result result st1)
               }
             else Some (- 1, set_errno E_NO_SUCH_DIR st))
          }
        else Some (- 1, set_errno E_NO_SUCH_DIR st))
     }"

definition Dir_Size :: "config \<Rightarrow> fs_state \<Rightarrow> string \<Rightarrow> (int \<times> fs_state) option" where
  "Dir_Size c st path =
     do {
       (parent_inode, last_inode, last_filename) \<leftarrow> follow_path c st path;
       child_inode \<leftarrow> last_inode;
       (if 0 \<le> child_inode then
          do {
            inode_sector \<leftarrow> inode_sector_of c child_inode;
            (case Disk_Read c st inode_sector of
               None \<Rightarrow> Some (- 1, set_errno E_GENERAL st)
             | Some inode_buffer \<Rightarrow>
                 do {
                   offset \<leftarrow> inode_offset c inode_sector child_inode;
                   child \<leftarrow> get_inode c inode_buffer offset;
                   (if i_type child = 0 then Some (- 1, set_errno E_GENERAL st)
                    else Some (i_size child * sizeof_dirent_t, st))
                 })
          }
        else Some (- 1, set_errno E_GENERAL st))
     }"

text \<open>The inner loop of \<^verbatim>\<open>Dir_Read\<close> copies entry \<open>j\<close> of the sector to
  \<^verbatim>\<open>buffer + j * sizeof(dirent_t)\<close>, slot \<open>j\<close> of the caller's buffer.\<close>

function Dir_Read_entries ::
  "config \<Rightarrow> sector \<Rightarrow> inode_t \<Rightarrow> dirent_t list \<Rightarrow> int \<Rightarrow> int \<Rightarrow> (dirent_t list \<times> int) option"
  where
  "Dir_Read_entries c data_buffer child buffer counter j =
     (if j < DIRENTS_PER_SECTOR c \<and> counter < i_size child then
        do {
          current_dirent \<leftarrow> get_dirent c data_buffer j;
          buffer1 \<leftarrow> upd_opt buffer j current_dirent;
          Dir_Read_entries c data_buffer child buffer1 (counter + 1) (j + 1)
        }
      else Some (buffer, counter))"
  by pat_completeness auto
termination
  by (relation "measure (\<lambda>(c, data_buffer, child, buffer, counter, j).
        nat (DIRENTS_PER_SECTOR c - j))") auto

function Dir_Read_loop ::
  "config \<Rightarrow> fs_state \<Rightarrow> inode_t \<Rightarrow> dirent_t list \<Rightarrow> int \<Rightarrow> int
    \<Rightarrow> (int \<times> fs_state \<times> dirent_t list) option" where
  "Dir_Read_loop c st child buffer counter i =
     (if i < MAX_SECTORS_PER_FILE c then
        do {
          s \<leftarrow> nth_opt (i_data child) i;
          (case Disk_Read c st s of
             None \<Rightarrow> Some (- 1, set_errno E_GENERAL st, buffer)
           | Some data_buffer \<Rightarrow>
               do {
                 (buffer1, counter1) \<leftarrow> Dir_Read_entries c data_buffer child buffer counter 0;
                 (if counter1 = i_size child then Some (i_size child, st, buffer1)
                  else Dir_Read_loop c st child buffer1 counter1 (i + 1))
               })
        }
      else Some (- 1, st, buffer))"
  by pat_completeness auto
termination
  by (relation "measure (\<lambda>(c, st, child, buffer, counter, i).
        nat (MAX_SECTORS_PER_FILE c - i))") auto

definition Dir_Read ::
  "config \<Rightarrow> fs_state \<Rightarrow> string \<Rightarrow> dirent_t list \<Rightarrow> int
    \<Rightarrow> (int \<times> fs_state \<times> dirent_t list) option" where
  "Dir_Read c st path buffer sz =
     do {
       (parent_inode, last_inode, last_filename) \<leftarrow> follow_path c st path;
       child_inode \<leftarrow> last_inode;
       (if 0 \<le> child_inode then
          do {
            (dir_size, st1) \<leftarrow> Dir_Size c st path;
            (if sz < dir_size then Some (- 1, set_errno E_BUFFER_TOO_SMALL st1, buffer)
             else
               do {
                 inode_sector \<leftarrow> inode_sector_of c child_inode;
                 (case Disk_Read c st1 inode_sector of
                    None \<Rightarrow> Some (- 1, set_errno E_GENERAL st1, buffer)
                  | Some inode_buffer \<Rightarrow>
                      do {
                        offset \<leftarrow> inode_offset c inode_sector child_inode;
                        child \<leftarrow> get_inode c inode_buffer offset;
                        Dir_Read_loop c st1 child buffer 0 0
                      })
               })
          }
        else Some (- 1, set_errno E_GENERAL st, buffer))
     }"

subsection \<open>Runs on a freshly formatted volume\<close>

text \<open>The globals of the process at its start are zero-filled; the volume is the one
  \<^verbatim>\<open>FS_Boot\<close> formats when there is no backing store, with the customary constants.\<close>

definition initial_state :: fs_state where
  "initial_state = \<lparr> disk = (\<lambda>s. Zero),
     open_files = replicate (nat MAX_OPEN_FILES) \<lparr> of_inode = 0, of_size = 0, of_pos = 0 \<rparr>,
     osErrno = None \<rparr>"

definition fresh_volume :: "fs_state option" where
  "fresh_volume =
     do {
       (r, st) \<leftarrow> FS_Boot std_config initial_state None;
       (if r = 0 then Some st else None)
     }"

text \<open>\<^verbatim>\<open>File_Create("/a.txt")\<close>, then \<^verbatim>\<open>File_Open("/a.txt")\<close>: descriptor 0 is open.\<close>

definition file_opened :: "fs_state option" where
  "file_opened =
     do {
       st0 \<leftarrow> fresh_volume;
       (r, st1) \<leftarrow> File_Create std_config st0 ''/a.txt'';
       (fd, st2) \<leftarrow> File_Open std_config st1 ''/a.txt'';
       (if r = 0 \<and> fd = 0 then Some st2 else None)
     }"

text \<open>Create, open, write \<open>n\<close> bytes, close, reopen, read \<open>n\<close> bytes into \<open>out\<close>: the return
  values of the six calls and the caller's buffer after the read.\<close>

definition run_roundtrip :: "byte list \<Rightarrow> int \<Rightarrow> byte list \<Rightarrow> (int list \<times> byte list) option" where
  "run_roundtrip data n out =
     do {
       st0 \<leftarrow> fresh_volume;
       (r, st1) \<leftarrow> File_Create std_config st0 ''/a.txt'';
       (fd, st2) \<leftarrow> File_Open std_config st1 ''/a.txt'';
       (w, st3) \<leftarrow> File_Write std_config st2 fd data n;
       (cl, st4) \<leftarrow> File_Close st3 fd;
       (fd2, st5) \<leftarrow> File_Open std_config st4 ''/a.txt'';
       (rd, st6, out1) \<leftarrow> File_Read std_config st5 fd2 out n;
       Some ([r, fd, w, cl, fd2, rd], out1)
     }"

text \<open>On the open, empty file: \<^verbatim>\<open>File_Seek(0, -1)\<close>. The return value, the table entry and
  \<^verbatim>\<open>osErrno\<close> after the call.\<close>

definition run_seek_negative :: "(int \<times> open_file_t option \<times> FS_Error_t option) option" where
  "run_seek_negative =
     do {
       st \<leftarrow> file_opened;
       (k, st1) \<leftarrow> File_Seek st 0 (- 1);
       Some (k, get_open_file st1 0, osErrno st1)
     }"

text \<open>One byte written (the file then has one sector) and the cursor back at 0.\<close>

definition file_rewound :: "fs_state option" where
  "file_rewound =
     do {
       st \<leftarrow> file_opened;
       (w, st1) \<leftarrow> File_Write std_config st 0 [65] 1;
       (k, st2) \<leftarrow> File_Seek st1 0 0;
       (if w = 1 \<and> k = 0 then Some st2 else None)
     }"

text \<open>A write of \<^verbatim>\<open>MAX_FILE_SIZE\<close> bytes at cursor 0 of that file: whether cursor plus length
  stays within the maximum, the table entry before, the return value, \<^verbatim>\<open>osErrno\<close> and the
  entry after.\<close>

definition run_write_at_capacity ::
  "(bool \<times> open_file_t \<times> int \<times> FS_Error_t option \<times> open_file_t) option" where
  "run_write_at_capacity =
     do {
       st \<leftarrow> file_rewound;
       e \<leftarrow> get_open_file st 0;
       (w, st1) \<leftarrow> File_Write std_config st 0 (replicate 15360 65) 15360;
       e1 \<leftarrow> get_open_file st1 0;
       Some (of_pos e + 15360 \<le> MAX_FILE_SIZE std_config, e, w, osErrno st1, e1)
     }"

text \<open>A file of two sectors (512 bytes written, then 1024), cursor back at 0, and a read
  of 600 bytes: the return values, the entry before the read and after it.\<close>

definition run_short_read :: "(int list \<times> open_file_t \<times> open_file_t) option" where
  "run_short_read =
     do {
       st \<leftarrow> file_opened;
       (w1, st1) \<leftarrow> File_Write std_config st 0 (replicate 512 65) 512;
       (w2, st2) \<leftarrow> File_Write std_config st1 0 (replicate 1024 66) 1024;
       (k, st3) \<leftarrow> File_Seek st2 0 0;
       e \<leftarrow> get_open_file st3 0;
       (rd, st4, out) \<leftarrow> File_Read std_config st3 0 (replicate 600 0) 600;
       e1 \<leftarrow> get_open_file st4 0;
       Some ([w1, w2, k, rd], e, e1)
     }"

text \<open>On the fresh volume no file is open; descriptor 0 is a free slot. A read and a write
  on it: the slot, and the return value and \<^verbatim>\<open>osErrno\<close> of each call.\<close>

definition run_free_slot ::
  "(open_file_t \<times> (int \<times> FS_Error_t option) \<times> (int \<times> FS_Error_t option)) option" where
  "run_free_slot =
     do {
       st \<leftarrow> fresh_volume;
       e \<leftarrow> get_open_file st 0;
       (rd, st1, out) \<leftarrow> File_Read std_config st 0 [0] 1;
       (w, st2) \<leftarrow> File_Write std_config st 0 [65] 1;
       Some (e, (rd, osErrno st1), (w, osErrno st2))
     }"



text \<open>The entry count of the root inode and the first three entries of its first sector,
  read from the disk.\<close>

definition root_entries :: "fs_state \<Rightarrow> (int \<times> dirent_t list) option" where
  "root_entries st =
     do {
       sec \<leftarrow> inode_sector_of std_config 0;
       buf \<leftarrow> Disk_Read std_config st sec;
       root \<leftarrow> get_inode std_config buf 0;
       s \<leftarrow> nth_opt (i_data root) 0;
       dbuf \<leftarrow> Disk_Read std_config st s;
       ds \<leftarrow> as_dirents std_config dbuf;
       Some (i_size root, take 3 ds)
     }"

text \<open>Files \<open>/a\<close> and \<open>/b\<close> are created and \<open>/a\<close> is unlinked: the return values and the
  root directory on the disk.\<close>

definition run_unlink_first :: "(int list \<times> int \<times> dirent_t list) option" where
  "run_unlink_first =
     do {
       st \<leftarrow> fresh_volume;
       (r1, st1) \<leftarrow> File_Create std_config st ''/a'';
       (r2, st2) \<leftarrow> File_Create std_config st1 ''/b'';
       (r3, st3) \<leftarrow> File_Unlink std_config st2 ''/a'';
       (n, ds) \<leftarrow> root_entries st3;
       Some ([r1, r2, r3], n, ds)
     }"

text \<open>Files \<open>/a\<close> and \<open>/b\<close> are created and \<open>/b\<close> is unlinked; then \<open>/b\<close> is looked up and
  created again.\<close>

definition run_unlink_last ::
  "(int list \<times> (int \<times> int option \<times> string option) \<times> int \<times> FS_Error_t option) option" where
  "run_unlink_last =
     do {
       st \<leftarrow> fresh_volume;
       (r1, st1) \<leftarrow> File_Create std_config st ''/a'';
       (r2, st2) \<leftarrow> File_Create std_config st1 ''/b'';
       (r3, st3) \<leftarrow> File_Unlink std_config st2 ''/b'';
       found \<leftarrow> follow_path std_config st3 ''/b'';
       (r4, st4) \<leftarrow> File_Create std_config st3 ''/b'';
       Some ([r1, r2, r3], found, r4, osErrno st4)
     }"

text \<open>Twenty-six files \<open>/a\<close>, ..., \<open>/z\<close> in the root, one more than a sector holds entries;
  then \<^verbatim>\<open>Dir_Read("/")\<close> into a buffer of twenty-six entries.\<close>

fun create_files :: "fs_state \<Rightarrow> string \<Rightarrow> fs_state option" where
  "create_files st [] = Some st"
| "create_files st (ch # chs) =
     do {
       (r, st1) \<leftarrow> File_Create std_config st [CHR ''/'', ch];
       (if r = 0 then create_files st1 chs else None)
     }"

definition run_dir_read_26 :: "(int \<times> int \<times> string list \<times> int list) option" where
  "run_dir_read_26 =
     do {
       st \<leftarrow> fresh_volume;
       st1 \<leftarrow> create_files st ''abcdefghijklmnopqrstuvwxyz'';
       (n, st2) \<leftarrow> Dir_Size std_config st1 ''/'';
       (m, st3, out) \<leftarrow> Dir_Read std_config st2 ''/'' (replicate 26 zero_dirent) 520;
       Some (n, m, map d_fname out, map d_inode out)
     }"

text \<open>Twenty-five files fill the first sector of the root exactly; then \<open>/a\<close> is unlinked.
  The entry count before, and the return value of \<^verbatim>\<open>File_Unlink\<close> if the call has a defined
  result.\<close>

definition run_unlink_full_sector :: "(int \<times> int option) option" where
  "run_unlink_full_sector =
     do {
       st \<leftarrow> fresh_volume;
       st1 \<leftarrow> create_files st ''abcdefghijklmnopqrstuvwxy'';
       (n, ds) \<leftarrow> root_entries st1;
       Some (n, map_option fst (File_Unlink std_config st1 ''/a''))
     }"

text \<open>\<^verbatim>\<open>File_Open\<close> of a path that does not exist, on the fresh volume.\<close>

definition run_open_missing :: "(int \<times> FS_Error_t option) option" where
  "run_open_missing =
     do {
       st \<leftarrow> fresh_volume;
       (r, st1) \<leftarrow> File_Open std_config st ''/missing'';
       Some (r, osErrno st1)
     }"

text \<open>A table with every slot in use.\<close>

definition full_table :: fs_state where
  "full_table = \<lparr> disk = (\<lambda>s. Zero),
     open_files = replicate (nat MAX_OPEN_FILES) \<lparr> of_inode = 1, of_size = 0, of_pos = 0 \<rparr>,
     osErrno = None \<rparr>"

subsection \<open>Results of option-valued code\<close>

text \<open>\<open>returns m P\<close>: if the run \<open>m\<close> has a result, the result satisfies \<open>P\<close>.\<close>

definition returns :: "'a option \<Rightarrow> ('a \<Rightarrow> bool) \<Rightarrow> bool" where
  "returns m P = (case m of None \<Rightarrow> True | Some x \<Rightarrow> P x)"

text \<open>\<open>too_big_kept st st'\<close>: \<^verbatim>\<open>osErrno\<close> is \<^verbatim>\<open>E_FILE_TOO_BIG\<close> in \<open>st'\<close> only if it was in \<open>st\<close>.\<close>

definition too_big_kept :: "fs_state \<Rightarrow> fs_state \<Rightarrow> bool" where
  "too_big_kept st st' =
     (if osErrno st' = Some E_FILE_TOO_BIG then osErrno st = Some E_FILE_TOO_BIG else True)"

section \<open>Properties\<close>

subsection \<open>Rules for \<open>returns\<close>\<close>

lemma returns_Some: "P x \<Longrightarrow> returns (Some x) P"
  by (simp add: returns_def)

lemma returns_None: "returns None P"
  by (simp add: returns_def)

lemma returns_bind: "(\<And>x. m = Some x \<Longrightarrow> returns (f x) P) \<Longrightarrow> returns (Option.bind m f) P"
  by (cases m) (simp_all add: returns_def)

lemma returns_bind_post:
  "returns m Q \<Longrightarrow> (\<And>x. Q x \<Longrightarrow> returns (f x) P) \<Longrightarrow> returns (Option.bind m f) P"
  by (cases m) (simp_all add: returns_def)

lemma returns_weaken: "returns m Q \<Longrightarrow> (\<And>x. Q x \<Longrightarrow> P x) \<Longrightarrow> returns m P"
  by (cases m) (simp_all add: returns_def)

lemma returns_if:
  "(b \<Longrightarrow> returns x P) \<Longrightarrow> (\<not> b \<Longrightarrow> returns y P) \<Longrightarrow> returns (if b then x else y) P"
  by simp

lemma returns_case_option:
  "(m = None \<Longrightarrow> returns x P) \<Longrightarrow> (\<And>v. m = Some v \<Longrightarrow> returns (f v) P)
    \<Longrightarrow> returns (case m of None \<Rightarrow> x | Some v \<Rightarrow> f v) P"
  by (cases m) simp_all

lemma returns_case_sum:
  "(\<And>a. s = Inl a \<Longrightarrow> returns (f a) P) \<Longrightarrow> (\<And>b. s = Inr b \<Longrightarrow> returns (g b) P)
    \<Longrightarrow> returns (case s of Inl a \<Rightarrow> f a | Inr b \<Rightarrow> g b) P"
  by (cases s) simp_all

lemma returns_case_prod:
  "(\<And>a b. p = (a, b) \<Longrightarrow> returns (f a b) P) \<Longrightarrow> returns (case p of (a, b) \<Rightarrow> f a b) P"
  by (cases p) simp

lemma returns_Let: "(\<And>v. v = x \<Longrightarrow> returns (f v) P) \<Longrightarrow> returns (Let x f) P"
  by simp

lemmas returns_intros =
  returns_None returns_bind returns_if returns_case_option returns_case_sum returns_case_prod
  returns_Let

lemma returnsD: "returns m P \<Longrightarrow> m = Some x \<Longrightarrow> P x"
  by (simp add: returns_def)

lemma returnsI: "(\<And>x. m = Some x \<Longrightarrow> P x) \<Longrightarrow> returns m P"
  by (cases m) (simp_all add: returns_def)

lemma too_big_kept_refl: "too_big_kept st st"
  by (simp add: too_big_kept_def)

lemma too_big_kept_eq: "osErrno st' = osErrno st \<Longrightarrow> too_big_kept st st'"
  by (simp add: too_big_kept_def)

lemma too_big_kept_trans: "too_big_kept a b \<Longrightarrow> too_big_kept b c \<Longrightarrow> too_big_kept a c"
  by (simp add: too_big_kept_def split: if_splits)

lemma too_big_kept_set_errno: "e \<noteq> E_FILE_TOO_BIG \<Longrightarrow> too_big_kept st (set_errno e st)"
  by (simp add: too_big_kept_def set_errno_def)

lemma Disk_Write_errno: "Disk_Write c st s b = Some st' \<Longrightarrow> osErrno st' = osErrno st"
  by (auto simp: Disk_Write_def split: if_splits)

lemma put_open_file_errno: "put_open_file st fd e = Some st' \<Longrightarrow> osErrno st' = osErrno st"
  by (auto simp: put_open_file_def bind_eq_Some_conv split: if_splits)

lemma add_pos_errno: "add_pos st fd n = Some st' \<Longrightarrow> osErrno st' = osErrno st"
  by (auto simp: add_pos_def bind_eq_Some_conv dest: put_open_file_errno)

lemma bitmap_first_unused_loop_errno:
  "returns (bitmap_first_unused_loop c i stop nBytes remain_bits last_block location st)
     (\<lambda>(l, st'). too_big_kept st st')"
proof (induction "nat (stop - i)" arbitrary: i last_block location)
  case 0
  then show ?case
    by (subst bitmap_first_unused_loop.simps) (simp add: returns_def too_big_kept_refl)
next
  case (Suc n)
  have IH: "\<And>lb loc. i < stop \<Longrightarrow>
      returns (bitmap_first_unused_loop c (i + 1) stop nBytes remain_bits lb loc st)
        (\<lambda>(l, st'). too_big_kept st st')"
    using Suc.hyps(2) by (intro Suc.hyps(1)) linarith
  show ?case
    by (subst bitmap_first_unused_loop.simps)
       (intro returns_intros returns_Some IH;
        simp add: too_big_kept_refl too_big_kept_set_errno too_big_kept_eq Disk_Write_errno)
qed

lemma bitmap_first_unused_errno:
  "bitmap_first_unused c st a b n = Some (r, st') \<Longrightarrow> too_big_kept st st'"
  using returnsD [OF bitmap_first_unused_loop_errno] unfolding bitmap_first_unused_def by fastforce

lemma cdiv_le:
  assumes "0 < b" "a \<le> m * b" "0 \<le> m"
  shows "cdiv a b \<le> m"
proof (cases "0 \<le> a")
  case True
  have "a div b \<le> (m * b) div b" using assms by (intro zdiv_mono1) auto
  then have "a div b \<le> m" using assms by simp
  moreover have "cdiv a b = a div b"
    using True assms by (cases "a = 0") (simp_all add: cdiv_def sgn_if)
  ultimately show ?thesis by simp
next
  case False
  then have "cdiv a b = - (\<bar>a\<bar> div b)" using assms by (simp add: cdiv_def sgn_if)
  moreover have "0 \<le> \<bar>a\<bar> div b" using assms by (simp add: pos_imp_zdiv_nonneg_iff)
  ultimately show ?thesis using assms by linarith
qed

lemma cmod_less:
  assumes "0 < b"
  shows "cmod a b < b"
proof (cases "0 \<le> a")
  case True
  then have "cdiv a b = a div b"
    using assms by (cases "a = 0") (simp_all add: cdiv_def sgn_if)
  then have "cmod a b = a mod b" by (simp add: cmod_def minus_mult_div_eq_mod)
  then show ?thesis using assms by simp
next
  case False
  then have "cdiv a b = - ((- a) div b)" using assms by (simp add: cdiv_def sgn_if)
  then have "cmod a b = - ((- a) mod b)"
    by (simp add: cmod_def algebra_simps) (metis minus_mult_div_eq_mod add.commute diff_minus_eq_add minus_diff_eq mult.commute)
  moreover have "0 \<le> (- a) mod b" using assms by simp
  ultimately show ?thesis using assms by linarith
qed

lemma File_Write_loop_errno:
  "stop \<le> MAX_SECTORS_PER_FILE c + 1 \<Longrightarrow>
   returns (File_Write_loop c st fd child i stop sector_index buffer_index sector_bytes
              remainder_bytes)
     (\<lambda>r. case r of Inl st' \<Rightarrow> too_big_kept st st' | Inr (st', child') \<Rightarrow> too_big_kept st st')"
proof (induction "nat (stop - i)" arbitrary: i st child buffer_index sector_bytes remainder_bytes)
  case 0
  then show ?case
    by (subst File_Write_loop.simps) (simp add: returns_def too_big_kept_refl)
next
  case (Suc n)
  have IH: "\<And>st1 ch bi sb rb. i < stop \<Longrightarrow> too_big_kept st st1 \<Longrightarrow>
      returns (File_Write_loop c st1 fd ch (i + 1) stop sector_index bi sb rb)
        (\<lambda>r. case r of Inl st' \<Rightarrow> too_big_kept st st' | Inr (st', child') \<Rightarrow> too_big_kept st st')"
  proof -
    fix st1 ch bi sb rb
    assume a: "i < stop" "too_big_kept st st1"
    have "returns (File_Write_loop c st1 fd ch (i + 1) stop sector_index bi sb rb)
        (\<lambda>r. case r of Inl st' \<Rightarrow> too_big_kept st1 st' | Inr (st', child') \<Rightarrow> too_big_kept st1 st')"
      using Suc.hyps(2) Suc.prems a by (intro Suc.hyps(1)) linarith+
    then show "returns (File_Write_loop c st1 fd ch (i + 1) stop sector_index bi sb rb)
        (\<lambda>r. case r of Inl st' \<Rightarrow> too_big_kept st st' | Inr (st', child') \<Rightarrow> too_big_kept st st')"
      by (rule returns_weaken) (auto split: sum.splits intro: too_big_kept_trans [OF a(2)])
  qed
  show ?case
    apply (subst File_Write_loop.simps)
    apply (intro returns_intros returns_Some IH)
    using Suc.prems
                apply (auto simp: too_big_kept_def set_errno_def bind_eq_Some_conv
        split: if_splits
        dest!: bitmap_first_unused_errno Disk_Write_errno add_pos_errno)
    done
qed

lemma is_file_open_loop_mem:
  "e \<in> set es \<Longrightarrow> is_file_open_loop es (of_inode e) = 1"
  by (induction es) auto

lemma nth_opt_mem: "nth_opt xs i = Some x \<Longrightarrow> x \<in> set xs"
  by (auto simp: nth_opt_def split: if_splits)

lemma is_file_open_self:
  "get_open_file st fd = Some e \<Longrightarrow> is_file_open st (of_inode e) = 1"
  unfolding get_open_file_def is_file_open_def
  by (rule is_file_open_loop_mem) (rule nth_opt_mem)

lemma File_Write_errno:
  assumes "get_open_file st fd = Some e" "0 < SECTOR_SIZE c" "0 \<le> MAX_SECTORS_PER_FILE c"
    "0 \<le> of_size e" "of_size e + sz \<le> MAX_FILE_SIZE c"
  shows "returns (File_Write c st fd ubuf sz) (\<lambda>(r, st'). too_big_kept st st')"
proof -
  have stop: "\<And>d. add32 sz (cmod (of_pos e) (SECTOR_SIZE c) - SECTOR_SIZE c) = Some d
      \<Longrightarrow> cdiv d (SECTOR_SIZE c) + 1 \<le> MAX_SECTORS_PER_FILE c + 1"
  proof -
    fix d
    assume "add32 sz (cmod (of_pos e) (SECTOR_SIZE c) - SECTOR_SIZE c) = Some d"
    then have d: "d = sz - (SECTOR_SIZE c - cmod (of_pos e) (SECTOR_SIZE c))"
      by (auto simp: add32_def split: if_splits)
    have "cmod (of_pos e) (SECTOR_SIZE c) < SECTOR_SIZE c"
      using assms(2) by (rule cmod_less)
    then have "d \<le> MAX_SECTORS_PER_FILE c * SECTOR_SIZE c"
      using d assms(4,5) by (simp add: MAX_FILE_SIZE_def mult.commute)
    then show "cdiv d (SECTOR_SIZE c) + 1 \<le> MAX_SECTORS_PER_FILE c + 1"
      using cdiv_le [OF assms(2) _ assms(3)] by simp
  qed
  note loop = returns_bind_post [OF File_Write_loop_errno]
  show ?thesis
    unfolding File_Write_def
    apply (intro loop returns_intros returns_Some)
    using assms stop
                        apply (auto simp: too_big_kept_def set_errno_def bind_eq_Some_conv Let_def
        add32_def c_div_def c_mod_def
        split: if_splits sum.splits
        dest!: Disk_Write_errno put_open_file_errno)
    done
qed

lemma File_Write_rejects:
  assumes "get_open_file st fd = Some e" "of_size e + sz \<le> INT_MAX" "- INT_MAX - 1 \<le> of_size e + sz"
    "MAX_FILE_SIZE c < of_size e + sz"
  shows "File_Write c st fd ubuf sz = Some (- 1, set_errno E_FILE_TOO_BIG st)"
  using assms is_file_open_self [OF assms(1)]
  by (simp add: File_Write_def add32_def)



lemma File_Write_ret: "returns (File_Write c st fd ubuf sz) (\<lambda>(r, st'). r = - 1 \<or> r = sz)"
  unfolding File_Write_def
  by (intro returns_intros returns_Some) simp_all

lemma File_Read_ret: "returns (File_Read c st fd ubuf sz) (\<lambda>(r, st', out). out = ubuf)"
  unfolding File_Read_def
  by (intro returns_intros returns_Some) simp_all

lemma new_file_fd_loop_full:
  "list_all (\<lambda>e. 0 < of_inode e) es \<Longrightarrow> new_file_fd_loop es i = - 1"
  by (induction es arbitrary: i) auto

subsection \<open>Reading and writing\<close>

text \<open>The caller's buffer is the same after every \<^verbatim>\<open>File_Read\<close>: the copy goes to the local
  sector buffer.\<close>

lemma File_Read_keeps_caller_buffer:
  "File_Read c st fd ubuf sz = Some (r, st', out) \<Longrightarrow> out = ubuf"
  using returnsD [OF File_Read_ret, of c st fd ubuf sz "(r, st', out)"] by simp

text \<open>So the round trip hands back the buffer it was given, whatever was written.\<close>

lemma roundtrip_never_copies:
  "run_roundtrip data n out = Some (rs, out1) \<Longrightarrow> out1 = out"
  unfolding run_roundtrip_def
  by (auto simp: bind_eq_Some_conv dest: File_Read_keeps_caller_buffer)

text \<open>
  C1 (write/read round trip). On the fresh volume \<open>/a.txt\<close> is created and opened, the two
  bytes 72, 105 are written, the file is closed and reopened, and two bytes are read into a
  zeroed buffer. Every call succeeds and the read returns 2, but the caller's buffer still
  holds its zeros: the bytes read are not the bytes written.
\<close>

theorem roundtrip_bytes_differ:
  "run_roundtrip [72, 105] 2 [0, 0] = Some ([0, 0, 2, 0, 0, 2], [0, 0])"
  by code_simp

text \<open>With 600 bytes the count is wrong as well: the write returns 600, the file has
  one sector, and the read returns 512.\<close>

lemma roundtrip_short_count:
  "run_roundtrip (replicate 600 65) 600 (replicate 600 0)
     = Some ([0, 0, 600, 0, 0, 512], replicate 600 0)"
  by code_simp

lemma put_get_open_file:
  "get_open_file st fd = Some e \<Longrightarrow>
   \<exists>st1. put_open_file st fd v = Some st1 \<and> get_open_file st1 fd = Some v
     \<and> st1 = st\<lparr> open_files := (open_files st)[nat fd := v] \<rparr>"
  by (auto simp: get_open_file_def put_open_file_def nth_opt_def upd_opt_def split: if_splits)

text \<open>What \<^verbatim>\<open>File_Seek\<close> does on a descriptor inside the table: it fails exactly when the
  offset exceeds the size or the size is negative.\<close>

lemma File_Seek_result:
  assumes "get_open_file st fd = Some e"
  shows "File_Seek st fd offset =
     (if of_size e < offset \<or> of_size e < 0 then Some (- 1, set_errno E_SEEK_OUT_OF_BOUNDS st)
      else Some (offset, st\<lparr> open_files := (open_files st)[nat fd := e\<lparr> of_pos := offset \<rparr>] \<rparr>))"
proof -
  from put_get_open_file [OF assms, of "e\<lparr> of_pos := offset \<rparr>"] obtain st1 where
    "put_open_file st fd (e\<lparr> of_pos := offset \<rparr>) = Some st1"
    "get_open_file st1 fd = Some (e\<lparr> of_pos := offset \<rparr>)"
    "st1 = st\<lparr> open_files := (open_files st)[nat fd := e\<lparr> of_pos := offset \<rparr>] \<rparr>"
    by blast
  then show ?thesis
    using assms is_file_open_self [OF assms] by (simp add: File_Seek_def)
qed

text \<open>
  C2 (seek bounds). On the open, empty file \<^verbatim>\<open>File_Seek(0, -1)\<close> does not fail with
  the out-of-range error: it stores -1 as the cursor and returns it, and \<^verbatim>\<open>osErrno\<close> stays
  unset. The guard of the code tests the file size, not the offset, for being negative.
\<close>

theorem seek_negative_accepted:
  "run_seek_negative = Some (- 1, Some \<lparr> of_inode = 1, of_size = 0, of_pos = - 1 \<rparr>, None)"
  by code_simp

text \<open>
  C3 as stated (rejection exactly when cursor + length exceeds the maximum file size) fails:
  with one sector written and the cursor back at 0, a write of \<^verbatim>\<open>MAX_FILE_SIZE\<close> bytes ends
  exactly at the maximum, and is rejected with \<^verbatim>\<open>E_FILE_TOO_BIG\<close>. The entry is unchanged.
\<close>

theorem write_at_capacity_rejected:
  "run_write_at_capacity =
     Some (True, \<lparr> of_inode = 1, of_size = 512, of_pos = 0 \<rparr>, - 1, Some E_FILE_TOO_BIG,
           \<lparr> of_inode = 1, of_size = 512, of_pos = 0 \<rparr>)"
  by code_simp

text \<open>
  C3, amended. The guard of \<^verbatim>\<open>File_Write\<close> compares the cached file size plus the length,
  not the cursor plus the length, with \<^verbatim>\<open>MAX_FILE_SIZE\<close>. For a descriptor inside the table
  whose entry has size \<open>s \<ge> 0\<close>, with \<open>s + n\<close> an \<^verbatim>\<open>int\<close>: if \<open>s + n\<close> exceeds the maximum the call
  returns -1, sets \<^verbatim>\<open>E_FILE_TOO_BIG\<close> and changes nothing else (table, sizes and disk are
  as before); if it does not, the call does not set \<^verbatim>\<open>E_FILE_TOO_BIG\<close>.
\<close>

theorem File_Write_too_big:
  assumes "get_open_file st fd = Some e"
    and "0 < SECTOR_SIZE c" and "0 \<le> MAX_SECTORS_PER_FILE c"
    and "0 \<le> of_size e" and "- INT_MAX - 1 \<le> of_size e + sz" and "of_size e + sz \<le> INT_MAX"
  shows "(MAX_FILE_SIZE c < of_size e + sz \<longrightarrow>
            File_Write c st fd ubuf sz = Some (- 1, set_errno E_FILE_TOO_BIG st))
       \<and> (of_size e + sz \<le> MAX_FILE_SIZE c \<longrightarrow> osErrno st \<noteq> Some E_FILE_TOO_BIG \<longrightarrow>
            (\<forall>r st'. File_Write c st fd ubuf sz = Some (r, st') \<longrightarrow>
               osErrno st' \<noteq> Some E_FILE_TOO_BIG))"
proof (intro conjI impI allI)
  assume "MAX_FILE_SIZE c < of_size e + sz"
  then show "File_Write c st fd ubuf sz = Some (- 1, set_errno E_FILE_TOO_BIG st)"
    using assms by (intro File_Write_rejects) auto
next
  fix r st'
  assume a: "of_size e + sz \<le> MAX_FILE_SIZE c" "osErrno st \<noteq> Some E_FILE_TOO_BIG"
    "File_Write c st fd ubuf sz = Some (r, st')"
  have "returns (File_Write c st fd ubuf sz) (\<lambda>(r, st'). too_big_kept st st')"
    using assms(1-4) a(1) by (rule File_Write_errno)
  from returnsD [OF this a(3)] a(2) show "osErrno st' \<noteq> Some E_FILE_TOO_BIG"
    by (auto simp: too_big_kept_def split: if_splits)
qed

theorem File_Write_too_big_witness:
  "\<exists>st r st'. file_rewound = Some st
     \<and> File_Write std_config st 0 (replicate 15360 65) 15360
         = Some (- 1, set_errno E_FILE_TOO_BIG st)
     \<and> File_Write std_config st 0 [65] 1 = Some (r, st')
     \<and> osErrno st' \<noteq> Some E_FILE_TOO_BIG"
proof -
  have "case file_rewound of None \<Rightarrow> False
        | Some st \<Rightarrow>
            (if get_open_file st 0 = Some \<lparr> of_inode = 1, of_size = 512, of_pos = 0 \<rparr>
                \<and> osErrno st = None
             then (case File_Write std_config st 0 [65] 1 of None \<Rightarrow> False | Some x \<Rightarrow> True)
             else False)"
    by code_simp
  then obtain st r st' where a: "file_rewound = Some st"
    "get_open_file st 0 = Some \<lparr> of_inode = 1, of_size = 512, of_pos = 0 \<rparr>"
    "osErrno st = None" "File_Write std_config st 0 [65] 1 = Some (r, st')"
    by (auto split: option.splits if_splits)
  have big: "File_Write std_config st 0 (replicate 15360 65) 15360
      = Some (- 1, set_errno E_FILE_TOO_BIG st)"
    using File_Write_too_big [OF a(2), of std_config 15360 "replicate 15360 65"]
    by (simp add: std_config_def MAX_FILE_SIZE_def INT_MAX_def)
  have "osErrno st' \<noteq> Some E_FILE_TOO_BIG"
    using File_Write_too_big [OF a(2), of std_config 1 "[65]"] a(3,4)
    by (simp add: std_config_def MAX_FILE_SIZE_def INT_MAX_def)
  with a(1,4) big show ?thesis by blast
qed

text \<open>
  C4 (read count and cursor). The file has two sectors (1024 bytes) and the cursor is at 0.
  \<^verbatim>\<open>File_Read(0, buffer, 600)\<close> returns 600, the minimum of the length and the bytes left, but
  the cursor has advanced by 512 only: the number of sectors to visit is computed from the
  end position and the sector size alone, and the loop stops after the first sector.
\<close>

theorem short_read_cursor:
  "run_short_read =
     Some ([512, 1024, 0, 600], \<lparr> of_inode = 1, of_size = 1024, of_pos = 0 \<rparr>,
           \<lparr> of_inode = 1, of_size = 1024, of_pos = 512 \<rparr>)"
  by code_simp

text \<open>The test of \<^verbatim>\<open>File_Read\<close>, \<^verbatim>\<open>File_Write\<close> and \<^verbatim>\<open>File_Seek\<close> for an open descriptor asks
  whether some slot of the table holds the inode of slot \<open>fd\<close>; slot \<open>fd\<close> itself does, so
  the test never fails for a descriptor inside the table (\<open>is_file_open_self\<close>).

  C5 (bad descriptor). On the fresh volume descriptor 0 is a free slot. \<^verbatim>\<open>File_Read\<close> and
  \<^verbatim>\<open>File_Write\<close> on it both pass that test, load inode 0 (the root directory) and fail with
  \<^verbatim>\<open>E_GENERAL\<close>, not with \<^verbatim>\<open>E_BAD_FD\<close>.
\<close>

theorem free_slot_not_bad_fd:
  "run_free_slot =
     Some (\<lparr> of_inode = 0, of_size = 0, of_pos = 0 \<rparr>, (- 1, Some E_GENERAL),
           (- 1, Some E_GENERAL))"
  by code_simp

text \<open>
  C10 (return value of a write). Whenever \<^verbatim>\<open>File_Write\<close> returns something other than -1,
  it returns its \<^verbatim>\<open>size\<close> argument.
\<close>

theorem File_Write_returns_size:
  "File_Write c st fd ubuf sz = Some (r, st') \<Longrightarrow> r \<noteq> - 1 \<Longrightarrow> r = sz"
  using returnsD [OF File_Write_ret, of c st fd ubuf sz "(r, st')"] by simp

text \<open>A write of one byte to the open, empty file returns 1; the cursor has moved by a
  whole sector.\<close>

theorem File_Write_returns_size_witness:
  "\<exists>st st' e. file_opened = Some st \<and> File_Write std_config st 0 [65] 1 = Some (1, st')
     \<and> get_open_file st' 0 = Some e \<and> of_pos e = 512"
proof -
  have "case file_opened of None \<Rightarrow> False
        | Some st \<Rightarrow>
            (case File_Write std_config st 0 [65] 1 of None \<Rightarrow> False
             | Some (r, st') \<Rightarrow>
                 (if r = - 1 then False
                  else (case get_open_file st' 0 of None \<Rightarrow> False | Some e \<Rightarrow> of_pos e = 512)))"
    by code_simp
  then obtain st r st' e where a: "file_opened = Some st"
    "File_Write std_config st 0 [65] 1 = Some (r, st')" "r \<noteq> - 1"
    "get_open_file st' 0 = Some e" "of_pos e = 512"
    by (auto split: option.splits if_splits)
  from File_Write_returns_size [OF a(2,3)] a show ?thesis by auto
qed

subsection \<open>Opening\<close>

text \<open>
  C9 (descriptor before path). When every slot of the open-file table is in use,
  \<^verbatim>\<open>File_Open\<close> returns -1 with \<^verbatim>\<open>E_TOO_MANY_OPEN_FILES\<close> for every path, and changes nothing
  else: the path is never looked at.
\<close>

theorem File_Open_table_full:
  assumes "list_all (\<lambda>e. 0 < of_inode e) (take (nat MAX_OPEN_FILES) (open_files st))"
  shows "File_Open c st file = Some (- 1, set_errno E_TOO_MANY_OPEN_FILES st)"
  using new_file_fd_loop_full [OF assms, of 0]
  by (simp add: File_Open_def new_file_fd_def)

theorem File_Open_table_full_witness:
  "File_Open std_config full_table ''/missing''
     = Some (- 1, set_errno E_TOO_MANY_OPEN_FILES full_table)"
  using File_Open_table_full [of full_table std_config "''/missing''"]
  by (simp add: full_table_def MAX_OPEN_FILES_def list_all_iff)

text \<open>With a free slot the same path gives \<^verbatim>\<open>E_NO_SUCH_FILE\<close>.\<close>

lemma open_missing_not_found: "run_open_missing = Some (- 1, Some E_NO_SUCH_FILE)"
  by code_simp

subsection \<open>Directories\<close>




text \<open>
  C7 (deletion keeps a dense prefix and zeroes the last slot). Files \<open>/a\<close> and \<open>/b\<close> are
  created in the root and \<open>/a\<close> is unlinked. The entry count is 1 and slot 0 holds \<open>b\<close>, but
  slot 1, the old last slot, still holds \<open>b\<close> too: the zeroing is done in the buffer of
  the last sector, which is not the buffer that is written.
\<close>

theorem unlink_leaves_last_slot:
  "run_unlink_first =
     Some ([0, 0, 0], 1,
           [\<lparr> d_fname = ''b'', d_inode = 2 \<rparr>, \<lparr> d_fname = ''b'', d_inode = 2 \<rparr>, zero_dirent])"
  by code_simp

text \<open>The slot that is left is still found by name: after \<open>/b\<close>, the last entry, is
  unlinked, \<^verbatim>\<open>follow_path("/b")\<close> finds inode 2 and \<^verbatim>\<open>File_Create("/b")\<close> fails.\<close>

lemma unlinked_name_still_found:
  "run_unlink_last = Some ([0, 0, 0], (0, Some 2, Some ''b''), - 1, Some E_CREATE)"
  by code_simp

text \<open>When the entries fill the last sector exactly, \<^verbatim>\<open>remove_inode\<close> takes the last entry
  from the sector after it, at index -1: the call has no defined result.\<close>

lemma unlink_at_full_sector: "run_unlink_full_sector = Some (25, None)"
  by code_simp

text \<open>
  C8 (listing). With twenty-six entries in the root, \<^verbatim>\<open>Dir_Size\<close> is 520 and \<^verbatim>\<open>Dir_Read\<close>
  into a buffer of 520 bytes returns 26, but the buffer does not hold the twenty-six
  entries: the entry of the second sector (\<open>z\<close>) is copied to slot 0, over \<open>a\<close>, and slot 25
  is never written. The copy is indexed by the position in the sector.
\<close>

theorem dir_read_overwrites:
  "run_dir_read_26 =
     Some (520, 26,
       [''z'', ''b'', ''c'', ''d'', ''e'', ''f'', ''g'', ''h'', ''i'', ''j'', ''k'', ''l'', ''m'',
        ''n'', ''o'', ''p'', ''q'', ''r'', ''s'', ''t'', ''u'', ''v'', ''w'', ''x'', ''y'', []],
       [26, 2, 3, 4, 5, 6, 7, 8, 9, 10, 11, 12, 13, 14, 15, 16, 17, 18, 19, 20, 21, 22, 23, 24,
        25, 0])"
  by code_simp

end
